theory Spec2Isabelle
  imports Complex_Main "HOL-Library.Char_ord" "HOL-Library.List_Lexorder"
begin

section \<open>JavaScript numbers\<close>

text \<open>
  The progress computation of \<^verbatim>\<open>server/routes.ts\<close> is carried out on JavaScript numbers,
  that is on IEEE 754 binary64 values:
  \<^verbatim>\<open>Math.round((completedSteps / allSteps.length) * 100)\<close>.
  Both operands are array lengths, so only values that are not negative occur. A finite
  value is represented by the rational it denotes; every arithmetic operation computes the
  exact result and rounds it to the nearest binary64 value, ties to the even significand.
\<close>

datatype number = NaN | Infinity | Num rat

fun bit_length :: "nat \<Rightarrow> nat" where
  "bit_length n = (if n = 0 then 0 else Suc (bit_length (n div 2)))"

declare bit_length.simps [simp del]

text \<open>The exponent \<open>e\<close> with \<open>2 ^ e \<le> q < 2 ^ (e + 1)\<close>, for \<open>0 < q\<close>.\<close>

definition binade :: "rat \<Rightarrow> int" where
  "binade q =
     (if 1 \<le> q then int (bit_length (nat \<lfloor>q\<rfloor>)) - 1
      else - int (bit_length (nat (\<lceil>1 / q\<rceil> - 1))))"

definition ties_to_even :: "rat \<Rightarrow> int" where
  "ties_to_even x =
     (let f = \<lfloor>x\<rfloor>; d = x - of_int f
      in if d < 1 / 2 then f else if 1 / 2 < d then f + 1
         else if even f then f else f + 1)"

text \<open>
  Rounding of an exact result \<open>0 \<le> q\<close> to binary64: 53 significant bits, the smallest
  exponent is \<open>-1022\<close> (below it the spacing stays \<open>2 ^ -1074\<close>), and a result of
  \<open>2 ^ 1024\<close> or more is \<open>Infinity\<close>.
\<close>

definition binary64 :: "rat \<Rightarrow> number" where
  "binary64 q =
     (if q = 0 then Num 0
      else let e = max (binade q) (- 1022);
               ulp = 2 powi (e - 52);
               v = of_int (ties_to_even (q / ulp)) * ulp
           in if 2 powi 1024 \<le> v then Infinity else Num v)"

fun number_divide :: "number \<Rightarrow> number \<Rightarrow> number" where
  "number_divide NaN _ = NaN"
| "number_divide _ NaN = NaN"
| "number_divide Infinity Infinity = NaN"
| "number_divide Infinity (Num b) = Infinity"
| "number_divide (Num a) Infinity = Num 0"
| "number_divide (Num a) (Num b) =
     (if b = 0 then (if a = 0 then NaN else Infinity) else binary64 (a / b))"

fun number_times :: "number \<Rightarrow> number \<Rightarrow> number" where
  "number_times NaN _ = NaN"
| "number_times _ NaN = NaN"
| "number_times Infinity Infinity = Infinity"
| "number_times Infinity (Num b) = (if b = 0 then NaN else Infinity)"
| "number_times (Num a) Infinity = (if a = 0 then NaN else Infinity)"
| "number_times (Num a) (Num b) = binary64 (a * b)"

text \<open>\<^verbatim>\<open>Math.round\<close>: the nearest integer, a tie going up.\<close>

fun Math_round :: "number \<Rightarrow> number" where
  "Math_round NaN = NaN"
| "Math_round Infinity = Infinity"
| "Math_round (Num x) = Num (of_int \<lfloor>x + 1 / 2\<rfloor>)"

text \<open>\<^verbatim>\<open>x === y\<close> and \<open>x > y\<close> on numbers: every comparison with \<open>NaN\<close> is false.\<close>

fun number_eq :: "number \<Rightarrow> number \<Rightarrow> bool" where
  "number_eq (Num a) (Num b) = (a = b)"
| "number_eq Infinity Infinity = True"
| "number_eq _ _ = False"

fun number_gt :: "number \<Rightarrow> number \<Rightarrow> bool" where
  "number_gt (Num a) (Num b) = (b < a)"
| "number_gt Infinity (Num b) = True"
| "number_gt _ _ = False"

text \<open>The length of an array as a number (exact: a length is below \<open>2 ^ 32\<close>).\<close>

definition of_length :: "nat \<Rightarrow> number" where
  "of_length n = Num (of_nat n)"

section \<open>The entity store (\<^verbatim>\<open>shared/schema.ts\<close>)\<close>

type_synonym timestamp = nat

type_synonym jsonb = string

datatype user_role = admin | hr_manager | it_admin | manager | viewer

datatype employee_status = joining | active | moving | leaving | departed

datatype workflow_type = joiner | mover | leaver

datatype template_status = T_draft | T_active | T_archived

datatype workflow_status = W_pending | W_in_progress | W_completed | W_blocked | W_cancelled

datatype step_status = S_pending | S_in_progress | S_completed | S_blocked | S_skipped

datatype task_status = K_pending | K_in_progress | K_completed | K_blocked

record user =
  user_id :: string
  user_email :: string
  user_username :: string
  user_password :: string
  user_firstName :: string
  user_lastName :: string
  user_role :: user_role
  user_departmentId :: "string option"
  user_avatarUrl :: "string option"
  user_isActive :: bool
  user_createdAt :: timestamp
  user_updatedAt :: timestamp

record employee =
  emp_id :: string
  emp_employeeNumber :: "string option"
  emp_firstName :: string
  emp_lastName :: string
  emp_email :: string
  emp_personalEmail :: "string option"
  emp_phone :: "string option"
  emp_jobTitle :: string
  emp_departmentId :: string
  emp_managerId :: "string option"
  emp_status :: employee_status
  emp_startDate :: "timestamp option"
  emp_endDate :: "timestamp option"
  emp_location :: "string option"
  emp_workType :: "string option"
  emp_metadata :: "jsonb option"
  emp_createdAt :: timestamp
  emp_updatedAt :: timestamp

record workflow_template =
  tpl_id :: string
  tpl_name :: string
  tpl_description :: "string option"
  tpl_type :: workflow_type
  tpl_status :: template_status
  tpl_version :: int
  tpl_isDefault :: bool
  tpl_estimatedDays :: "int option"
  tpl_metadata :: "jsonb option"
  tpl_createdBy :: "string option"
  tpl_createdAt :: timestamp
  tpl_updatedAt :: timestamp

record template_step =
  ts_id :: string
  ts_templateId :: string
  ts_name :: string
  ts_description :: "string option"
  ts_stepOrder :: int
  ts_assigneeRole :: "user_role option"
  ts_assigneeId :: "string option"
  ts_slaMinutes :: "int option"
  ts_isRequired :: bool
  ts_automationConfig :: "jsonb option"
  ts_metadata :: "jsonb option"
  ts_createdAt :: timestamp

record workflow =
  wf_id :: string
  wf_templateId :: string
  wf_employeeId :: string
  wf_name :: string
  wf_type :: workflow_type
  wf_status :: workflow_status
  wf_initiatedBy :: string
  wf_assignedTo :: "string option"
  wf_startDate :: "timestamp option"
  wf_dueDate :: "timestamp option"
  wf_completedAt :: "timestamp option"
  wf_progress :: int
  wf_metadata :: "jsonb option"
  wf_createdAt :: timestamp
  wf_updatedAt :: timestamp

record workflow_step =
  ws_id :: string
  ws_workflowId :: string
  ws_templateStepId :: "string option"
  ws_name :: string
  ws_description :: "string option"
  ws_stepOrder :: int
  ws_status :: step_status
  ws_assigneeId :: "string option"
  ws_dueDate :: "timestamp option"
  ws_startedAt :: "timestamp option"
  ws_completedAt :: "timestamp option"
  ws_completedBy :: "string option"
  ws_notes :: "string option"
  ws_metadata :: "jsonb option"
  ws_createdAt :: timestamp
  ws_updatedAt :: timestamp

record task =
  task_id :: string
  task_workflowStepId :: string
  task_workflowId :: string
  task_title :: string
  task_description :: "string option"
  task_status :: task_status
  task_assigneeId :: "string option"
  task_priority :: "string option"
  task_dueDate :: "timestamp option"
  task_completedAt :: "timestamp option"
  task_completedBy :: "string option"
  task_metadata :: "jsonb option"
  task_createdAt :: timestamp
  task_updatedAt :: timestamp

record audit_log =
  log_id :: string
  log_userId :: "string option"
  log_action :: string
  log_entityType :: string
  log_entityId :: "string option"
  log_description :: "string option"
  log_changes :: "jsonb option"
  log_ipAddress :: "string option"
  log_userAgent :: "string option"
  log_createdAt :: timestamp

text \<open>
  The database: one list of rows for each table. The rows of a table are kept in the order
  of their insertion.
\<close>

record store =
  users :: "user list"
  employees :: "employee list"
  workflowTemplates :: "workflow_template list"
  templateSteps :: "template_step list"
  workflows :: "workflow list"
  workflowSteps :: "workflow_step list"
  tasks :: "task list"
  auditLogs :: "audit_log list"

section \<open>The persistence gateway (\<^verbatim>\<open>server/storage.ts\<close>)\<close>

text \<open>
  A partial update \<^verbatim>\<open>Partial<InsertX>\<close> is a record of optional fields: \<open>None\<close> is a key
  that the object does not have, and a column that may be null carries an option of its
  own. The request bodies are taken at the types the storage interface declares for them.
  Each insertion takes the identifier that the database draws for the new row
  (\<^verbatim>\<open>gen_random_uuid()\<close>) and the reading of its clock; each \<^verbatim>\<open>new Date()\<close> of the
  code is an argument, too. The identifier drawn is the primary key of the new row and is
  taken to be new. The columns declared \<^verbatim>\<open>unique()\<close> (\<^verbatim>\<open>users.email\<close>,
  \<^verbatim>\<open>users.username\<close>, \<^verbatim>\<open>employees.employee_number\<close>) are checked: a statement that
  would give a row the value of another row is refused by the database, and the call
  throws.
\<close>

datatype error = DbError

record workflow_step_patch =
  sp_workflowId :: "string option"
  sp_templateStepId :: "string option option"
  sp_name :: "string option"
  sp_description :: "string option option"
  sp_stepOrder :: "int option"
  sp_status :: "step_status option"
  sp_assigneeId :: "string option option"
  sp_dueDate :: "timestamp option option"
  sp_startedAt :: "timestamp option option"
  sp_completedAt :: "timestamp option option"
  sp_completedBy :: "string option option"
  sp_notes :: "string option option"
  sp_metadata :: "jsonb option option"

record workflow_patch =
  wp_templateId :: "string option"
  wp_employeeId :: "string option"
  wp_name :: "string option"
  wp_type :: "workflow_type option"
  wp_status :: "workflow_status option"
  wp_initiatedBy :: "string option"
  wp_assignedTo :: "string option option"
  wp_startDate :: "timestamp option option"
  wp_dueDate :: "timestamp option option"
  wp_completedAt :: "timestamp option option"
  wp_progress :: "number option"
  wp_metadata :: "jsonb option option"

record user_patch =
  up_email :: "string option"
  up_username :: "string option"
  up_password :: "string option"
  up_firstName :: "string option"
  up_lastName :: "string option"
  up_role :: "user_role option"
  up_departmentId :: "string option option"
  up_avatarUrl :: "string option option"
  up_isActive :: "bool option"

record employee_patch =
  ep_employeeNumber :: "string option option"
  ep_firstName :: "string option"
  ep_lastName :: "string option"
  ep_email :: "string option"
  ep_personalEmail :: "string option option"
  ep_phone :: "string option option"
  ep_jobTitle :: "string option"
  ep_departmentId :: "string option"
  ep_managerId :: "string option option"
  ep_status :: "employee_status option"
  ep_startDate :: "timestamp option option"
  ep_endDate :: "timestamp option option"
  ep_location :: "string option option"
  ep_workType :: "string option option"
  ep_metadata :: "jsonb option option"

text \<open>The value of a column after \<^verbatim>\<open>.set({ ...data })\<close>: the supplied one, if any.\<close>

definition supplied :: "'a option \<Rightarrow> 'a \<Rightarrow> 'a" where
  "supplied new old = (case new of None \<Rightarrow> old | Some v \<Rightarrow> v)"

text \<open>
  \<^verbatim>\<open>const [row] = await db.update(t).set(...).where(eq(t.id, id)).returning()\<close>: every row
  with the identifier is rewritten, and the first of them is returned, if there is one.
\<close>

definition first_row :: "'a list \<Rightarrow> 'a option" where
  "first_row rows = (case rows of [] \<Rightarrow> None | r # _ \<Rightarrow> Some r)"

definition update_where :: "('a \<Rightarrow> bool) \<Rightarrow> ('a \<Rightarrow> 'a) \<Rightarrow> 'a list \<Rightarrow> 'a list" where
  "update_where p f rows = map (\<lambda>r. if p r then f r else r) rows"

definition returning :: "('a \<Rightarrow> bool) \<Rightarrow> ('a \<Rightarrow> 'a) \<Rightarrow> 'a list \<Rightarrow> 'a list" where
  "returning p f rows = map f (filter p rows)"

subsection \<open>Users\<close>

record insert_user =
  iu_email :: string
  iu_username :: string
  iu_password :: string
  iu_firstName :: string
  iu_lastName :: string
  iu_role :: "user_role option"
  iu_departmentId :: "string option"
  iu_avatarUrl :: "string option"
  iu_isActive :: "bool option"

definition getUser :: "string \<Rightarrow> store \<Rightarrow> user option" where
  "getUser id' s = first_row (filter (\<lambda>u. user_id u = id') (users s))"

text \<open>
  \<^verbatim>\<open>orderBy(users.firstName)\<close>: ascending in the first name; the order of the
  database's collation is taken to be the lexicographic one.
\<close>

definition getUsers :: "store \<Rightarrow> user list" where
  "getUsers s = sort_key user_firstName (users s)"

definition createUser ::
  "string \<Rightarrow> timestamp \<Rightarrow> insert_user \<Rightarrow> store \<Rightarrow> error + user \<times> store" where
  "createUser uuid now insertUser s =
     (let user = \<lparr> user_id = uuid,
                    user_email = iu_email insertUser,
                    user_username = iu_username insertUser,
                    user_password = iu_password insertUser,
                    user_firstName = iu_firstName insertUser,
                    user_lastName = iu_lastName insertUser,
                    user_role = supplied (iu_role insertUser) viewer,
                    user_departmentId = iu_departmentId insertUser,
                    user_avatarUrl = iu_avatarUrl insertUser,
                    user_isActive = supplied (iu_isActive insertUser) True,
                    user_createdAt = now,
                    user_updatedAt = now \<rparr>
      in if list_ex (\<lambda>u. user_email u = user_email user \<or> user_username u = user_username user)
              (users s)
         then Inl DbError
         else Inr (user, s\<lparr>users := users s @ [user]\<rparr>))"

definition set_user :: "user_patch \<Rightarrow> timestamp \<Rightarrow> user \<Rightarrow> user" where
  "set_user userData now u =
     u\<lparr> user_email := supplied (up_email userData) (user_email u),
        user_username := supplied (up_username userData) (user_username u),
        user_password := supplied (up_password userData) (user_password u),
        user_firstName := supplied (up_firstName userData) (user_firstName u),
        user_lastName := supplied (up_lastName userData) (user_lastName u),
        user_role := supplied (up_role userData) (user_role u),
        user_departmentId := supplied (up_departmentId userData) (user_departmentId u),
        user_avatarUrl := supplied (up_avatarUrl userData) (user_avatarUrl u),
        user_isActive := supplied (up_isActive userData) (user_isActive u),
        user_updatedAt := now \<rparr>"

definition updateUser ::
  "string \<Rightarrow> user_patch \<Rightarrow> timestamp \<Rightarrow> store \<Rightarrow> error + user option \<times> store" where
  "updateUser id' userData now s =
     (let rows = update_where (\<lambda>u. user_id u = id') (set_user userData now) (users s);
          rewritten = returning (\<lambda>u. user_id u = id') (set_user userData now) (users s)
      in if list_ex (\<lambda>r. 1 < length (filter (\<lambda>u. user_email u = user_email r) rows) \<or>
                          1 < length (filter (\<lambda>u. user_username u = user_username r) rows))
              rewritten
         then Inl DbError
         else Inr (first_row rewritten, s\<lparr>users := rows\<rparr>))"

definition deleteUser :: "string \<Rightarrow> store \<Rightarrow> store" where
  "deleteUser id' s = s\<lparr>users := filter (\<lambda>u. user_id u \<noteq> id') (users s)\<rparr>"

subsection \<open>Employees\<close>

definition set_employee :: "employee_patch \<Rightarrow> timestamp \<Rightarrow> employee \<Rightarrow> employee" where
  "set_employee employeeData now e =
     e\<lparr> emp_employeeNumber := supplied (ep_employeeNumber employeeData) (emp_employeeNumber e),
        emp_firstName := supplied (ep_firstName employeeData) (emp_firstName e),
        emp_lastName := supplied (ep_lastName employeeData) (emp_lastName e),
        emp_email := supplied (ep_email employeeData) (emp_email e),
        emp_personalEmail := supplied (ep_personalEmail employeeData) (emp_personalEmail e),
        emp_phone := supplied (ep_phone employeeData) (emp_phone e),
        emp_jobTitle := supplied (ep_jobTitle employeeData) (emp_jobTitle e),
        emp_departmentId := supplied (ep_departmentId employeeData) (emp_departmentId e),
        emp_managerId := supplied (ep_managerId employeeData) (emp_managerId e),
        emp_status := supplied (ep_status employeeData) (emp_status e),
        emp_startDate := supplied (ep_startDate employeeData) (emp_startDate e),
        emp_endDate := supplied (ep_endDate employeeData) (emp_endDate e),
        emp_location := supplied (ep_location employeeData) (emp_location e),
        emp_workType := supplied (ep_workType employeeData) (emp_workType e),
        emp_metadata := supplied (ep_metadata employeeData) (emp_metadata e),
        emp_updatedAt := now \<rparr>"

definition updateEmployee ::
  "string \<Rightarrow> employee_patch \<Rightarrow> timestamp \<Rightarrow> store \<Rightarrow> error + employee option \<times> store" where
  "updateEmployee id' employeeData now s =
     (let rows = update_where (\<lambda>e. emp_id e = id') (set_employee employeeData now) (employees s);
          rewritten = returning (\<lambda>e. emp_id e = id') (set_employee employeeData now) (employees s)
      in if list_ex (\<lambda>r. emp_employeeNumber r \<noteq> None \<and>
                          1 < length (filter (\<lambda>e. emp_employeeNumber e = emp_employeeNumber r) rows))
              rewritten
         then Inl DbError
         else Inr (first_row rewritten, s\<lparr>employees := rows\<rparr>))"

definition deleteEmployee :: "string \<Rightarrow> store \<Rightarrow> store" where
  "deleteEmployee id' s = s\<lparr>employees := filter (\<lambda>e. emp_id e \<noteq> id') (employees s)\<rparr>"

subsection \<open>Workflow templates and their steps\<close>

definition deleteWorkflowTemplate :: "string \<Rightarrow> store \<Rightarrow> store" where
  "deleteWorkflowTemplate id' s =
     s\<lparr>workflowTemplates := filter (\<lambda>t. tpl_id t \<noteq> id') (workflowTemplates s)\<rparr>"

text \<open>
  \<^verbatim>\<open>orderBy(templateSteps.stepOrder)\<close>: the rows in ascending step order; rows of equal
  order stay in the order of the table.
\<close>

definition getTemplateSteps :: "string \<Rightarrow> store \<Rightarrow> template_step list" where
  "getTemplateSteps templateId s =
     sort_key ts_stepOrder (filter (\<lambda>t. ts_templateId t = templateId) (templateSteps s))"

definition deleteTemplateStepsByTemplateId :: "string \<Rightarrow> store \<Rightarrow> store" where
  "deleteTemplateStepsByTemplateId templateId s =
     s\<lparr>templateSteps := filter (\<lambda>t. ts_templateId t \<noteq> templateId) (templateSteps s)\<rparr>"

subsection \<open>Workflows\<close>

record insert_workflow =
  iw_templateId :: string
  iw_employeeId :: string
  iw_name :: string
  iw_type :: workflow_type
  iw_status :: "workflow_status option"
  iw_initiatedBy :: string
  iw_assignedTo :: "string option"
  iw_startDate :: "timestamp option"
  iw_dueDate :: "timestamp option"
  iw_completedAt :: "timestamp option"
  iw_progress :: "int option"
  iw_metadata :: "jsonb option"

definition getWorkflow :: "string \<Rightarrow> store \<Rightarrow> workflow option" where
  "getWorkflow id' s = first_row (filter (\<lambda>w. wf_id w = id') (workflows s))"

definition createWorkflow ::
  "string \<Rightarrow> timestamp \<Rightarrow> insert_workflow \<Rightarrow> store \<Rightarrow> workflow \<times> store" where
  "createWorkflow uuid now insertWorkflow s =
     (let workflow = \<lparr> wf_id = uuid,
                        wf_templateId = iw_templateId insertWorkflow,
                        wf_employeeId = iw_employeeId insertWorkflow,
                        wf_name = iw_name insertWorkflow,
                        wf_type = iw_type insertWorkflow,
                        wf_status = supplied (iw_status insertWorkflow) W_pending,
                        wf_initiatedBy = iw_initiatedBy insertWorkflow,
                        wf_assignedTo = iw_assignedTo insertWorkflow,
                        wf_startDate = iw_startDate insertWorkflow,
                        wf_dueDate = iw_dueDate insertWorkflow,
                        wf_completedAt = iw_completedAt insertWorkflow,
                        wf_progress = supplied (iw_progress insertWorkflow) 0,
                        wf_metadata = iw_metadata insertWorkflow,
                        wf_createdAt = now,
                        wf_updatedAt = now \<rparr>
      in (workflow, s\<lparr>workflows := workflows s @ [workflow]\<rparr>))"

text \<open>
  The column \<^verbatim>\<open>progress\<close> is an \<^verbatim>\<open>integer\<close>: the database takes a number that is an
  integer of 32 bits and refuses every other one, and then the call throws.
\<close>

definition integer_column :: "number \<Rightarrow> error + int" where
  "integer_column x =
     (case x of
        Num r \<Rightarrow> if of_int \<lfloor>r\<rfloor> = r \<and> - (2 ^ 31) \<le> r \<and> r < 2 ^ 31 then Inr \<lfloor>r\<rfloor> else Inl DbError
      | _ \<Rightarrow> Inl DbError)"

definition set_workflow :: "workflow_patch \<Rightarrow> int option \<Rightarrow> timestamp \<Rightarrow> workflow \<Rightarrow> workflow" where
  "set_workflow workflowData progress now w =
     w\<lparr> wf_templateId := supplied (wp_templateId workflowData) (wf_templateId w),
        wf_employeeId := supplied (wp_employeeId workflowData) (wf_employeeId w),
        wf_name := supplied (wp_name workflowData) (wf_name w),
        wf_type := supplied (wp_type workflowData) (wf_type w),
        wf_status := supplied (wp_status workflowData) (wf_status w),
        wf_initiatedBy := supplied (wp_initiatedBy workflowData) (wf_initiatedBy w),
        wf_assignedTo := supplied (wp_assignedTo workflowData) (wf_assignedTo w),
        wf_startDate := supplied (wp_startDate workflowData) (wf_startDate w),
        wf_dueDate := supplied (wp_dueDate workflowData) (wf_dueDate w),
        wf_completedAt := supplied (wp_completedAt workflowData) (wf_completedAt w),
        wf_progress := supplied progress (wf_progress w),
        wf_metadata := supplied (wp_metadata workflowData) (wf_metadata w),
        wf_updatedAt := now \<rparr>"

definition updateWorkflow ::
  "string \<Rightarrow> workflow_patch \<Rightarrow> timestamp \<Rightarrow> store \<Rightarrow> error + workflow option \<times> store" where
  "updateWorkflow id' workflowData now s =
     (case (case wp_progress workflowData of
              None \<Rightarrow> Inr None
            | Some x \<Rightarrow> map_sum (\<lambda>e. e) Some (integer_column x)) of
        Inl e \<Rightarrow> Inl e
      | Inr progress \<Rightarrow>
          Inr (first_row (returning (\<lambda>w. wf_id w = id')
                 (set_workflow workflowData progress now) (workflows s)),
               s\<lparr>workflows := update_where (\<lambda>w. wf_id w = id')
                   (set_workflow workflowData progress now) (workflows s)\<rparr>))"

definition deleteWorkflow :: "string \<Rightarrow> store \<Rightarrow> store" where
  "deleteWorkflow id' s = s\<lparr>workflows := filter (\<lambda>w. wf_id w \<noteq> id') (workflows s)\<rparr>"

subsection \<open>Workflow steps\<close>

record insert_workflow_step =
  is_workflowId :: string
  is_templateStepId :: "string option"
  is_name :: string
  is_description :: "string option"
  is_stepOrder :: int
  is_status :: "step_status option"
  is_assigneeId :: "string option"
  is_dueDate :: "timestamp option"
  is_startedAt :: "timestamp option"
  is_completedAt :: "timestamp option"
  is_completedBy :: "string option"
  is_notes :: "string option"
  is_metadata :: "jsonb option"

definition getWorkflowSteps :: "string \<Rightarrow> store \<Rightarrow> workflow_step list" where
  "getWorkflowSteps workflowId s =
     sort_key ws_stepOrder (filter (\<lambda>w. ws_workflowId w = workflowId) (workflowSteps s))"

definition createWorkflowStep ::
  "string \<Rightarrow> timestamp \<Rightarrow> insert_workflow_step \<Rightarrow> store \<Rightarrow> workflow_step \<times> store" where
  "createWorkflowStep uuid now insertStep s =
     (let step = \<lparr> ws_id = uuid,
                    ws_workflowId = is_workflowId insertStep,
                    ws_templateStepId = is_templateStepId insertStep,
                    ws_name = is_name insertStep,
                    ws_description = is_description insertStep,
                    ws_stepOrder = is_stepOrder insertStep,
                    ws_status = supplied (is_status insertStep) S_pending,
                    ws_assigneeId = is_assigneeId insertStep,
                    ws_dueDate = is_dueDate insertStep,
                    ws_startedAt = is_startedAt insertStep,
                    ws_completedAt = is_completedAt insertStep,
                    ws_completedBy = is_completedBy insertStep,
                    ws_notes = is_notes insertStep,
                    ws_metadata = is_metadata insertStep,
                    ws_createdAt = now,
                    ws_updatedAt = now \<rparr>
      in (step, s\<lparr>workflowSteps := workflowSteps s @ [step]\<rparr>))"

definition set_workflow_step :: "workflow_step_patch \<Rightarrow> timestamp \<Rightarrow> workflow_step \<Rightarrow> workflow_step" where
  "set_workflow_step stepData now w =
     w\<lparr> ws_workflowId := supplied (sp_workflowId stepData) (ws_workflowId w),
        ws_templateStepId := supplied (sp_templateStepId stepData) (ws_templateStepId w),
        ws_name := supplied (sp_name stepData) (ws_name w),
        ws_description := supplied (sp_description stepData) (ws_description w),
        ws_stepOrder := supplied (sp_stepOrder stepData) (ws_stepOrder w),
        ws_status := supplied (sp_status stepData) (ws_status w),
        ws_assigneeId := supplied (sp_assigneeId stepData) (ws_assigneeId w),
        ws_dueDate := supplied (sp_dueDate stepData) (ws_dueDate w),
        ws_startedAt := supplied (sp_startedAt stepData) (ws_startedAt w),
        ws_completedAt := supplied (sp_completedAt stepData) (ws_completedAt w),
        ws_completedBy := supplied (sp_completedBy stepData) (ws_completedBy w),
        ws_notes := supplied (sp_notes stepData) (ws_notes w),
        ws_metadata := supplied (sp_metadata stepData) (ws_metadata w),
        ws_updatedAt := now \<rparr>"

definition updateWorkflowStep ::
  "string \<Rightarrow> workflow_step_patch \<Rightarrow> timestamp \<Rightarrow> store \<Rightarrow> workflow_step option \<times> store" where
  "updateWorkflowStep id' stepData now s =
     (first_row (returning (\<lambda>w. ws_id w = id') (set_workflow_step stepData now) (workflowSteps s)),
      s\<lparr>workflowSteps :=
          update_where (\<lambda>w. ws_id w = id') (set_workflow_step stepData now) (workflowSteps s)\<rparr>)"

subsection \<open>Audit logs\<close>

record insert_audit_log =
  il_userId :: "string option"
  il_action :: string
  il_entityType :: string
  il_entityId :: "string option"
  il_description :: "string option"
  il_changes :: "jsonb option"
  il_ipAddress :: "string option"
  il_userAgent :: "string option"

definition storage_createAuditLog ::
  "string \<Rightarrow> timestamp \<Rightarrow> insert_audit_log \<Rightarrow> store \<Rightarrow> audit_log \<times> store" where
  "storage_createAuditLog uuid now insertLog s =
     (let log = \<lparr> log_id = uuid,
                   log_userId = il_userId insertLog,
                   log_action = il_action insertLog,
                   log_entityType = il_entityType insertLog,
                   log_entityId = il_entityId insertLog,
                   log_description = il_description insertLog,
                   log_changes = il_changes insertLog,
                   log_ipAddress = il_ipAddress insertLog,
                   log_userAgent = il_userAgent insertLog,
                   log_createdAt = now \<rparr>
      in (log, s\<lparr>auditLogs := auditLogs s @ [log]\<rparr>))"

section \<open>The API layer (\<^verbatim>\<open>server/routes.ts\<close>)\<close>

subsection \<open>Objects, responses and validation\<close>

text \<open>
  A JavaScript object is the list of its keys with their values. A row of the table
  \<^verbatim>\<open>users\<close> is, in the code, the object with one key for each column.
\<close>

datatype jsvalue =
    JsNull
  | JsBool bool
  | JsNumber rat
  | JsString string
  | JsDate timestamp
  | JsArray "jsvalue list"
  | JsObject "(string \<times> jsvalue) list"

type_synonym object = "(string \<times> jsvalue) list"

definition has_key :: "string \<Rightarrow> object \<Rightarrow> bool" where
  "has_key k obj = (k \<in> set (map fst obj))"

definition nullable :: "string option \<Rightarrow> jsvalue" where
  "nullable v = (case v of None \<Rightarrow> JsNull | Some x \<Rightarrow> JsString x)"

fun role_name :: "user_role \<Rightarrow> string" where
  "role_name admin = ''admin''"
| "role_name hr_manager = ''hr_manager''"
| "role_name it_admin = ''it_admin''"
| "role_name manager = ''manager''"
| "role_name viewer = ''viewer''"

definition user_object :: "user \<Rightarrow> object" where
  "user_object u =
     [(''id'', JsString (user_id u)),
      (''email'', JsString (user_email u)),
      (''username'', JsString (user_username u)),
      (''password'', JsString (user_password u)),
      (''firstName'', JsString (user_firstName u)),
      (''lastName'', JsString (user_lastName u)),
      (''role'', JsString (role_name (user_role u))),
      (''departmentId'', nullable (user_departmentId u)),
      (''avatarUrl'', nullable (user_avatarUrl u)),
      (''isActive'', JsBool (user_isActive u)),
      (''createdAt'', JsDate (user_createdAt u)),
      (''updatedAt'', JsDate (user_updatedAt u))]"

text \<open>\<^verbatim>\<open>const { password, ...rest } = user; return rest;\<close>\<close>

definition omitPassword :: "object \<Rightarrow> object" where
  "omitPassword user = filter (\<lambda>(k, v). k \<noteq> ''password'') user"

text \<open>
  The issues of a failed \<^verbatim>\<open>safeParse\<close>: the path of the field, and for a value of the
  wrong type the type that was expected and the one that was received.
\<close>

datatype issue =
    Invalid_type "string list" string string
  | Invalid_enum_value "string list" string

datatype 'a body = Json 'a | Message string | Invalid string "issue list" | NoBody

datatype 'a response = Response nat "'a body" | Threw error

fun received :: "jsvalue option \<Rightarrow> string" where
  "received None = ''undefined''"
| "received (Some JsNull) = ''null''"
| "received (Some (JsBool _)) = ''boolean''"
| "received (Some (JsNumber _)) = ''number''"
| "received (Some (JsString _)) = ''string''"
| "received (Some (JsDate _)) = ''date''"
| "received (Some (JsArray _)) = ''array''"
| "received (Some (JsObject _)) = ''object''"

text \<open>
  \<^verbatim>\<open>insertUserSchema\<close> is \<^verbatim>\<open>createInsertSchema(users).omit({ id, createdAt, updatedAt })\<close>:
  a column that is \<^verbatim>\<open>notNull\<close> and has no default is a required field, a column with a
  default is optional, and a column that may be null is optional and takes null. Unknown
  keys are dropped. All fields are checked, and the issues of all of them are reported.
\<close>

definition z_string :: "string \<Rightarrow> object \<Rightarrow> issue list + string" where
  "z_string k obj =
     (case map_of obj k of
        Some (JsString v) \<Rightarrow> Inr v
      | other \<Rightarrow> Inl [Invalid_type [k] ''string'' (received other)])"

definition z_string_nullable_optional :: "string \<Rightarrow> object \<Rightarrow> issue list + string option" where
  "z_string_nullable_optional k obj =
     (case map_of obj k of
        None \<Rightarrow> Inr None
      | Some JsNull \<Rightarrow> Inr None
      | Some (JsString v) \<Rightarrow> Inr (Some v)
      | other \<Rightarrow> Inl [Invalid_type [k] ''string'' (received other)])"

definition z_boolean_optional :: "string \<Rightarrow> object \<Rightarrow> issue list + bool option" where
  "z_boolean_optional k obj =
     (case map_of obj k of
        None \<Rightarrow> Inr None
      | Some (JsBool b) \<Rightarrow> Inr (Some b)
      | other \<Rightarrow> Inl [Invalid_type [k] ''boolean'' (received other)])"

text \<open>
  The type that an enum expects, as the issue names it: its values, each between single
  quotes, joined by a bar.
\<close>

fun joinValues :: "string list \<Rightarrow> string" where
  "joinValues [] = []"
| "joinValues [v] = CHR 0x27 # v @ [CHR 0x27]"
| "joinValues (v # vs) = CHR 0x27 # v @ [CHR 0x27] @ '' | '' @ joinValues vs"

definition z_role_optional :: "string \<Rightarrow> object \<Rightarrow> issue list + user_role option" where
  "z_role_optional k obj =
     (case map_of obj k of
        None \<Rightarrow> Inr None
      | Some (JsString v) \<Rightarrow>
          (case filter (\<lambda>r. role_name r = v) [admin, hr_manager, it_admin, manager, viewer] of
             [] \<Rightarrow> Inl [Invalid_enum_value [k] v]
           | r # _ \<Rightarrow> Inr (Some r))
      | other \<Rightarrow>
          Inl [Invalid_type [k]
                 (joinValues (map role_name [admin, hr_manager, it_admin, manager, viewer]))
                 (received other)])"

fun field :: "issue list + ('a \<Rightarrow> 'b) \<Rightarrow> issue list + 'a \<Rightarrow> issue list + 'b" where
  "field (Inr f) (Inr x) = Inr (f x)"
| "field (Inl e) (Inr x) = Inl e"
| "field (Inr f) (Inl e') = Inl e'"
| "field (Inl e) (Inl e') = Inl (e @ e')"

definition insertUserSchema_safeParse :: "object \<Rightarrow> issue list + insert_user" where
  "insertUserSchema_safeParse obj =
     field (field (field (field (field (field (field (field (field
       (Inr (\<lambda>email username password firstName lastName role departmentId avatarUrl isActive.
          \<lparr> iu_email = email, iu_username = username, iu_password = password,
            iu_firstName = firstName, iu_lastName = lastName, iu_role = role,
            iu_departmentId = departmentId, iu_avatarUrl = avatarUrl,
            iu_isActive = isActive \<rparr>))
       (z_string ''email'' obj))
       (z_string ''username'' obj))
       (z_string ''password'' obj))
       (z_string ''firstName'' obj))
       (z_string ''lastName'' obj))
       (z_role_optional ''role'' obj))
       (z_string_nullable_optional ''departmentId'' obj))
       (z_string_nullable_optional ''avatarUrl'' obj))
       (z_boolean_optional ''isActive'' obj)"

text \<open>\<^verbatim>\<open>x || null\<close> on an optional string: the empty string is falsy.\<close>

definition or_null :: "string option \<Rightarrow> string option" where
  "or_null x = (case x of None \<Rightarrow> None | Some v \<Rightarrow> if v = [] then None else Some v)"

definition createAuditLog ::
  "string \<Rightarrow> timestamp \<Rightarrow> string option \<Rightarrow> string \<Rightarrow> string \<Rightarrow> string option \<Rightarrow> string option
     \<Rightarrow> store \<Rightarrow> store" where
  "createAuditLog uuid now userId action entityType entityId description s =
     snd (storage_createAuditLog uuid now
       \<lparr> il_userId = or_null userId,
         il_action = action,
         il_entityType = entityType,
         il_entityId = or_null entityId,
         il_description = or_null description,
         il_changes = None,
         il_ipAddress = None,
         il_userAgent = None \<rparr> s)"

subsection \<open>Users\<close>

text \<open>
  A handler takes what the request carries and the store and returns the response with
  the store it leaves. \<open>uuid k\<close> and \<open>clock k\<close> are the identifier and the time of the
  \<open>k\<close>-th insertion of the request. \<open>hash\<close> is \<^verbatim>\<open>bcrypt.hash(_, 10)\<close>.
\<close>

definition get_users :: "store \<Rightarrow> object list response" where
  "get_users s = Response 200 (Json (map (\<lambda>u. omitPassword (user_object u)) (getUsers s)))"

definition get_users_id :: "string \<Rightarrow> store \<Rightarrow> object response" where
  "get_users_id id' s =
     (case getUser id' s of
        None \<Rightarrow> Response 404 (Message ''User not found'')
      | Some user \<Rightarrow> Response 200 (Json (omitPassword (user_object user))))"

definition post_users ::
  "(string \<Rightarrow> string) \<Rightarrow> (nat \<Rightarrow> string) \<Rightarrow> (nat \<Rightarrow> timestamp) \<Rightarrow> object \<Rightarrow> store
     \<Rightarrow> object response \<times> store" where
  "post_users hash uuid clock body s =
     (case insertUserSchema_safeParse body of
        Inl errors \<Rightarrow> (Response 400 (Invalid ''Invalid user data'' errors), s)
      | Inr data \<Rightarrow>
          (let hashedPassword = hash (iu_password data)
           in case createUser (uuid 0) (clock 0) (data\<lparr>iu_password := hashedPassword\<rparr>) s of
                Inl e \<Rightarrow> (Threw e, s)
              | Inr (user, s1) \<Rightarrow>
                  (let s2 = createAuditLog (uuid 1) (clock 1) None ''create'' ''user''
                              (Some (user_id user)) (Some (''Created user '' @ user_email user)) s1
                   in (Response 201 (Json (omitPassword (user_object user))), s2))))"

definition patch_users_id ::
  "(string \<Rightarrow> string) \<Rightarrow> (nat \<Rightarrow> string) \<Rightarrow> (nat \<Rightarrow> timestamp) \<Rightarrow> timestamp \<Rightarrow> string
     \<Rightarrow> user_patch \<Rightarrow> store \<Rightarrow> object response \<times> store" where
  "patch_users_id hash uuid clock now id' body s =
     (let updateData =
            (case up_password body of
               None \<Rightarrow> body
             | Some password \<Rightarrow>
                 if password \<noteq> [] then body\<lparr>up_password := Some (hash password)\<rparr> else body)
      in case updateUser id' updateData now s of
           Inl e \<Rightarrow> (Threw e, s)
         | Inr (None, s1) \<Rightarrow> (Response 404 (Message ''User not found''), s1)
         | Inr (Some user, s1) \<Rightarrow>
             (let s2 = createAuditLog (uuid 0) (clock 0) None ''update'' ''user''
                         (Some (user_id user)) (Some (''Updated user '' @ user_email user)) s1
              in (Response 200 (Json (omitPassword (user_object user))), s2)))"

definition delete_users_id ::
  "(nat \<Rightarrow> string) \<Rightarrow> (nat \<Rightarrow> timestamp) \<Rightarrow> string \<Rightarrow> store \<Rightarrow> unit response \<times> store" where
  "delete_users_id uuid clock id' s =
     (let s1 = deleteUser id' s;
          s2 = createAuditLog (uuid 0) (clock 0) None ''delete'' ''user''
                 (Some id') (Some ''Deleted user'') s1
      in (Response 204 NoBody, s2))"

subsection \<open>Employees\<close>

definition patch_employees_id ::
  "timestamp \<Rightarrow> string \<Rightarrow> employee_patch \<Rightarrow> store \<Rightarrow> employee response \<times> store" where
  "patch_employees_id now id' body s =
     (case updateEmployee id' body now s of
        Inl e \<Rightarrow> (Threw e, s)
      | Inr (None, s1) \<Rightarrow> (Response 404 (Message ''Employee not found''), s1)
      | Inr (Some employee, s1) \<Rightarrow> (Response 200 (Json employee), s1))"

definition delete_employees_id :: "string \<Rightarrow> store \<Rightarrow> unit response \<times> store" where
  "delete_employees_id id' s = (Response 204 NoBody, deleteEmployee id' s)"

subsection \<open>Workflow templates\<close>

definition delete_templates_id :: "string \<Rightarrow> store \<Rightarrow> unit response \<times> store" where
  "delete_templates_id id' s =
     (let s1 = deleteTemplateStepsByTemplateId id' s;
          s2 = deleteWorkflowTemplate id' s1
      in (Response 204 NoBody, s2))"

subsection \<open>Workflows\<close>

text \<open>
  The loop of \<^verbatim>\<open>POST /api/workflows\<close> over the steps of the template; \<open>k\<close> counts the
  insertions of the request.
\<close>

fun clone_steps ::
  "(nat \<Rightarrow> string) \<Rightarrow> (nat \<Rightarrow> timestamp) \<Rightarrow> nat \<Rightarrow> workflow \<Rightarrow> template_step list \<Rightarrow> store
     \<Rightarrow> store" where
  "clone_steps uuid clock k workflow [] s = s"
| "clone_steps uuid clock k workflow (templateStep # rest) s =
     clone_steps uuid clock (Suc k) workflow rest
       (snd (createWorkflowStep (uuid k) (clock k)
          \<lparr> is_workflowId = wf_id workflow,
            is_templateStepId = Some (ts_id templateStep),
            is_name = ts_name templateStep,
            is_description = ts_description templateStep,
            is_stepOrder = ts_stepOrder templateStep,
            is_status = Some S_pending,
            is_assigneeId = ts_assigneeId templateStep,
            is_dueDate = None,
            is_startedAt = None,
            is_completedAt = None,
            is_completedBy = None,
            is_notes = None,
            is_metadata = None \<rparr> s))"

text \<open>
  \<open>parsed\<close> is the result of \<^verbatim>\<open>insertWorkflowSchema.safeParse(req.body)\<close>.
\<close>

definition post_workflows ::
  "(nat \<Rightarrow> string) \<Rightarrow> (nat \<Rightarrow> timestamp) \<Rightarrow> issue list + insert_workflow \<Rightarrow> store
     \<Rightarrow> workflow response \<times> store" where
  "post_workflows uuid clock parsed s =
     (case parsed of
        Inl errors \<Rightarrow> (Response 400 (Invalid ''Invalid workflow data'' errors), s)
      | Inr data \<Rightarrow>
          (let (workflow, s1) = createWorkflow (uuid 0) (clock 0) data s;
               templateSteps =
                 (if iw_templateId data \<noteq> [] then getTemplateSteps (iw_templateId data) s1
                  else []);
               s2 = clone_steps uuid clock 1 workflow templateSteps s1;
               k = Suc (length templateSteps);
               s3 = createAuditLog (uuid k) (clock k) None ''create'' ''workflow''
                      (Some (wf_id workflow)) (Some (''Created workflow '' @ wf_name workflow)) s2
           in (Response 201 (Json workflow), s3)))"

definition delete_workflows_id :: "string \<Rightarrow> store \<Rightarrow> unit response \<times> store" where
  "delete_workflows_id id' s = (Response 204 NoBody, deleteWorkflow id' s)"

subsection \<open>Workflow steps and the progress aggregator\<close>

text \<open>
  \<^verbatim>\<open>const completedSteps = allSteps.filter(s => s.status === "completed").length;\<close>
  \<^verbatim>\<open>const progress = Math.round((completedSteps / allSteps.length) * 100);\<close>
\<close>

definition progress_of :: "workflow_step list \<Rightarrow> number" where
  "progress_of allSteps =
     (let completedSteps = length (filter (\<lambda>s. ws_status s = S_completed) allSteps)
      in Math_round
           (number_times (number_divide (of_length completedSteps) (of_length (length allSteps)))
              (Num 100)))"

text \<open>The object without keys.\<close>

definition no_fields :: workflow_patch where
  "no_fields =
     \<lparr> wp_templateId = None, wp_employeeId = None, wp_name = None, wp_type = None,
       wp_status = None, wp_initiatedBy = None, wp_assignedTo = None, wp_startDate = None,
       wp_dueDate = None, wp_completedAt = None, wp_progress = None, wp_metadata = None \<rparr>"

definition workflowUpdate :: "number \<Rightarrow> timestamp \<Rightarrow> workflow_patch" where
  "workflowUpdate progress now =
     (if number_eq progress (Num 100)
      then no_fields\<lparr>wp_progress := Some progress, wp_status := Some W_completed,
                     wp_completedAt := Some (Some now)\<rparr>
      else if number_gt progress (Num 0)
      then no_fields\<lparr>wp_progress := Some progress, wp_status := Some W_in_progress\<rparr>
      else no_fields\<lparr>wp_progress := Some progress\<rparr>)"

text \<open>
  The body of the \<^verbatim>\<open>if\<close> of \<^verbatim>\<open>PATCH /api/workflow-steps/:id\<close>: \<open>t_done\<close> is the
  \<^verbatim>\<open>new Date()\<close> of the completion, \<open>t_upd\<close> the one of \<^verbatim>\<open>updateWorkflow\<close>.
\<close>

definition progress_aggregator :: "timestamp \<Rightarrow> timestamp \<Rightarrow> string \<Rightarrow> store \<Rightarrow> error + store" where
  "progress_aggregator t_done t_upd workflowId s =
     (let allSteps = getWorkflowSteps workflowId s;
          progress = progress_of allSteps
      in case updateWorkflow workflowId (workflowUpdate progress t_done) t_upd s of
           Inl e \<Rightarrow> Inl e
         | Inr (_, s') \<Rightarrow> Inr s')"

definition patch_workflow_steps_id ::
  "timestamp \<Rightarrow> timestamp \<Rightarrow> timestamp \<Rightarrow> string \<Rightarrow> workflow_step_patch \<Rightarrow> store
     \<Rightarrow> workflow_step response \<times> store" where
  "patch_workflow_steps_id t_step t_done t_upd id' body s =
     (case updateWorkflowStep id' body t_step s of
        (None, s1) \<Rightarrow> (Response 404 (Message ''Workflow step not found''), s1)
      | (Some step, s1) \<Rightarrow>
          if sp_status body = Some S_completed \<and> ws_workflowId step \<noteq> []
          then (case progress_aggregator t_done t_upd (ws_workflowId step) s1 of
                  Inl e \<Rightarrow> (Threw e, s1)
                | Inr s2 \<Rightarrow> (Response 200 (Json step), s2))
          else (Response 200 (Json step), s1))"

text \<open>
  The handler is suspended at each \<^verbatim>\<open>await\<close>, and the requests are not coordinated:
  another request can run between \<^verbatim>\<open>storage.updateWorkflowStep\<close> and the lines that
  follow it. \<open>after_step_update\<close> is the handler from the test of \<^verbatim>\<open>step\<close> on, run
  on the store that it finds when it resumes.
\<close>

definition after_step_update ::
  "timestamp \<Rightarrow> timestamp \<Rightarrow> workflow_step_patch \<Rightarrow> workflow_step option \<Rightarrow> store
     \<Rightarrow> workflow_step response \<times> store" where
  "after_step_update t_done t_upd body result s =
     (case result of
        None \<Rightarrow> (Response 404 (Message ''Workflow step not found''), s)
      | Some step \<Rightarrow>
          if sp_status body = Some S_completed \<and> ws_workflowId step \<noteq> []
          then (case progress_aggregator t_done t_upd (ws_workflowId step) s of
                  Inl e \<Rightarrow> (Threw e, s)
                | Inr s2 \<Rightarrow> (Response 200 (Json step), s2))
          else (Response 200 (Json step), s))"

text \<open>
  Two requests to \<^verbatim>\<open>PATCH /api/workflow-steps/:id\<close>: the first one updates its step and
  is suspended, the second one runs from its beginning to its end, and the first one
  resumes. The result is the response to the first, the response to the second and the
  store.
\<close>

definition two_patches_interleaved ::
  "timestamp \<Rightarrow> timestamp \<Rightarrow> timestamp \<Rightarrow> string \<Rightarrow> workflow_step_patch
     \<Rightarrow> timestamp \<Rightarrow> timestamp \<Rightarrow> timestamp \<Rightarrow> string \<Rightarrow> workflow_step_patch \<Rightarrow> store
     \<Rightarrow> workflow_step response \<times> workflow_step response \<times> store" where
  "two_patches_interleaved t_step t_done t_upd id' body t_step2 t_done2 t_upd2 id2 body2 s =
     (case updateWorkflowStep id' body t_step s of
        (result, s1) \<Rightarrow>
          (case patch_workflow_steps_id t_step2 t_done2 t_upd2 id2 body2 s1 of
             (response2, s2) \<Rightarrow>
               (case after_step_update t_done t_upd body result s2 of
                  (response1, s3) \<Rightarrow> (response1, response2, s3))))"

section \<open>Example data\<close>

text \<open>Concrete rows and stores, on which the handlers are run below.\<close>

fun decimal :: "nat \<Rightarrow> string" where
  "decimal n =
     (if n < 10 then [''0123456789'' ! n] else decimal (n div 10) @ [''0123456789'' ! (n mod 10)])"

declare decimal.simps [simp del]

definition step_row :: "string \<Rightarrow> string \<Rightarrow> string \<Rightarrow> int \<Rightarrow> step_status \<Rightarrow> workflow_step" where
  "step_row id' workflowId name' order' status =
     \<lparr> ws_id = id', ws_workflowId = workflowId, ws_templateStepId = None, ws_name = name',
       ws_description = None, ws_stepOrder = order', ws_status = status, ws_assigneeId = None,
       ws_dueDate = None, ws_startedAt = None, ws_completedAt = None, ws_completedBy = None,
       ws_notes = None, ws_metadata = None, ws_createdAt = 1, ws_updatedAt = 1 \<rparr>"

definition workflow_row :: "string \<Rightarrow> string \<Rightarrow> workflow_status \<Rightarrow> int \<Rightarrow> workflow" where
  "workflow_row id' templateId status progress =
     \<lparr> wf_id = id', wf_templateId = templateId, wf_employeeId = ''e1'',
       wf_name = ''Onboarding'', wf_type = joiner, wf_status = status, wf_initiatedBy = ''u1'',
       wf_assignedTo = None, wf_startDate = None, wf_dueDate = None, wf_completedAt = None,
       wf_progress = progress, wf_metadata = None, wf_createdAt = 1, wf_updatedAt = 1 \<rparr>"

definition template_step_row :: "string \<Rightarrow> string \<Rightarrow> string \<Rightarrow> int \<Rightarrow> template_step" where
  "template_step_row id' templateId name' order' =
     \<lparr> ts_id = id', ts_templateId = templateId, ts_name = name', ts_description = None,
       ts_stepOrder = order', ts_assigneeRole = Some it_admin, ts_assigneeId = None,
       ts_slaMinutes = Some 60, ts_isRequired = True, ts_automationConfig = None,
       ts_metadata = None, ts_createdAt = 1 \<rparr>"

definition template_row :: "string \<Rightarrow> workflow_template" where
  "template_row id' =
     \<lparr> tpl_id = id', tpl_name = ''Joiner'', tpl_description = None, tpl_type = joiner,
       tpl_status = T_active, tpl_version = 1, tpl_isDefault = False, tpl_estimatedDays = None,
       tpl_metadata = None, tpl_createdBy = None, tpl_createdAt = 1, tpl_updatedAt = 1 \<rparr>"

definition user_row :: "string \<Rightarrow> string \<Rightarrow> user" where
  "user_row id' name' =
     \<lparr> user_id = id', user_email = name' @ ''@company.com'', user_username = name',
       user_password = ''$2a$10$hashed'', user_firstName = name', user_lastName = ''Smith'',
       user_role = hr_manager, user_departmentId = None, user_avatarUrl = None,
       user_isActive = True, user_createdAt = 1, user_updatedAt = 1 \<rparr>"

definition employee_row :: "string \<Rightarrow> employee" where
  "employee_row id' =
     \<lparr> emp_id = id', emp_employeeNumber = None, emp_firstName = ''John'', emp_lastName = ''Doe'',
       emp_email = ''john.doe@company.com'', emp_personalEmail = None, emp_phone = None,
       emp_jobTitle = ''Software Engineer'', emp_departmentId = ''d1'', emp_managerId = None,
       emp_status = joining, emp_startDate = None, emp_endDate = None,
       emp_location = Some ''New York'', emp_workType = Some ''full-time'',
       emp_metadata = None, emp_createdAt = 1, emp_updatedAt = 1 \<rparr>"

definition task_row :: "string \<Rightarrow> string \<Rightarrow> string \<Rightarrow> task" where
  "task_row id' workflowStepId workflowId =
     \<lparr> task_id = id', task_workflowStepId = workflowStepId, task_workflowId = workflowId,
       task_title = ''Create account'', task_description = None, task_status = K_pending,
       task_assigneeId = None, task_priority = Some ''medium'', task_dueDate = None,
       task_completedAt = None, task_completedBy = None, task_metadata = None,
       task_createdAt = 1, task_updatedAt = 1 \<rparr>"

text \<open>
  The steps of the workflow \<open>w1\<close>: the pending step \<open>target\<close>, followed by the \<open>n\<close>
  steps \<open>s0, s1, \<dots>\<close> of which the first \<open>c\<close> are completed.
\<close>

definition target_step :: workflow_step where
  "target_step = step_row ''target'' ''w1'' ''Provision laptop'' 0 S_pending"

definition steps_of_w1 :: "nat \<Rightarrow> nat \<Rightarrow> workflow_step list" where
  "steps_of_w1 n c =
     target_step #
     map (\<lambda>i. step_row (''s'' @ decimal i) ''w1'' (''Step '' @ decimal i) (int (Suc i))
                 (if i < c then S_completed else S_pending)) [0..<n]"

text \<open>
  A store with one user, one employee, the template \<open>t1\<close> with the steps \<open>A\<close> (order 1)
  and \<open>B\<close> (order 2), and the workflow \<open>w1\<close> with the given status, progress and steps,
  and a task of its step \<open>target\<close>.
\<close>

definition example_store :: "workflow_status \<Rightarrow> int \<Rightarrow> workflow_step list \<Rightarrow> store" where
  "example_store status progress steps =
     \<lparr> users = [user_row ''u1'' ''jane''],
       employees = [employee_row ''e1''],
       workflowTemplates = [template_row ''t1''],
       templateSteps = [template_step_row ''a'' ''t1'' ''A'' 1, template_step_row ''b'' ''t1'' ''B'' 2],
       workflows = [workflow_row ''w1'' ''t1'' status progress],
       workflowSteps = steps,
       tasks = [task_row ''k1'' ''target'' ''w1''],
       auditLogs = [] \<rparr>"

text \<open>The bodies \<^verbatim>\<open>{ status: ... }\<close> and \<^verbatim>\<open>{}\<close>.\<close>

definition status_only :: "step_status \<Rightarrow> workflow_step_patch" where
  "status_only status =
     \<lparr> sp_workflowId = None, sp_templateStepId = None, sp_name = None, sp_description = None,
       sp_stepOrder = None, sp_status = Some status, sp_assigneeId = None, sp_dueDate = None,
       sp_startedAt = None, sp_completedAt = None, sp_completedBy = None, sp_notes = None,
       sp_metadata = None \<rparr>"

text \<open>The body \<^verbatim>\<open>{ workflowId: ... }\<close>.\<close>

definition workflowId_only :: "string \<Rightarrow> workflow_step_patch" where
  "workflowId_only workflowId =
     \<lparr> sp_workflowId = Some workflowId, sp_templateStepId = None, sp_name = None,
       sp_description = None, sp_stepOrder = None, sp_status = None, sp_assigneeId = None,
       sp_dueDate = None, sp_startedAt = None, sp_completedAt = None, sp_completedBy = None,
       sp_notes = None, sp_metadata = None \<rparr>"

definition no_employee_fields :: employee_patch where
  "no_employee_fields =
     \<lparr> ep_employeeNumber = None, ep_firstName = None, ep_lastName = None, ep_email = None,
       ep_personalEmail = None, ep_phone = None, ep_jobTitle = None, ep_departmentId = None,
       ep_managerId = None, ep_status = None, ep_startDate = None, ep_endDate = None,
       ep_location = None, ep_workType = None, ep_metadata = None \<rparr>"

definition no_user_fields :: user_patch where
  "no_user_fields =
     \<lparr> up_email = None, up_username = None, up_password = None, up_firstName = None,
       up_lastName = None, up_role = None, up_departmentId = None, up_avatarUrl = None,
       up_isActive = None \<rparr>"

text \<open>The identifiers and the clock of the examples, and a stand-in for the hash.\<close>

definition example_uuid :: "nat \<Rightarrow> string" where
  "example_uuid k = ''new'' @ decimal k"

definition example_clock :: "nat \<Rightarrow> timestamp" where
  "example_clock k = 100 + k"

definition example_hash :: "string \<Rightarrow> string" where
  "example_hash password = ''$2a$10$'' @ rev password"

definition example_workflow :: insert_workflow where
  "example_workflow =
     \<lparr> iw_templateId = ''t1'', iw_employeeId = ''e1'', iw_name = ''Onboarding John Doe'',
       iw_type = joiner, iw_status = None, iw_initiatedBy = ''u1'', iw_assignedTo = None,
       iw_startDate = None, iw_dueDate = None, iw_completedAt = None, iw_progress = None,
       iw_metadata = None \<rparr>"

section \<open>Auxiliary notions of the proofs\<close>

text \<open>The progress as a function of the two counts.\<close>

definition percent :: "nat \<Rightarrow> nat \<Rightarrow> number" where
  "percent c n = Math_round (number_times (number_divide (of_length c) (of_length n)) (Num 100))"

text \<open>The integer nearest to \<open>a / b\<close>, a tie going to the even one, in integer arithmetic.\<close>

definition nearest_even :: "int \<Rightarrow> int \<Rightarrow> int" where
  "nearest_even a b =
     (if 2 * (a mod b) < b then a div b
      else if b < 2 * (a mod b) then a div b + 1
      else if even (a div b) then a div b else a div b + 1)"

text \<open>What the aggregator writes into a row of \<^verbatim>\<open>workflows\<close> when the progress is \<open>p\<close>.\<close>

definition written :: "int \<Rightarrow> timestamp \<Rightarrow> timestamp \<Rightarrow> workflow \<Rightarrow> workflow" where
  "written p t_done t_upd w =
     w\<lparr> wf_status := (if p = 100 then W_completed else if 0 < p then W_in_progress else wf_status w),
        wf_completedAt := (if p = 100 then Some t_done else wf_completedAt w),
        wf_progress := p,
        wf_updatedAt := t_upd \<rparr>"

text \<open>A failed validation that reports a given issue.\<close>

definition reports :: "issue \<Rightarrow> issue list + 'a \<Rightarrow> bool" where
  "reports i r = (case r of Inl e \<Rightarrow> i \<in> set e | Inr _ \<Rightarrow> False)"

text \<open>
  What a workflow step took from a template step: the workflow, the template step, the
  name, the order and the status.
\<close>

definition cloned :: "workflow_step \<Rightarrow> string \<times> string option \<times> string \<times> int \<times> step_status" where
  "cloned w = (ws_workflowId w, ws_templateStepId w, ws_name w, ws_stepOrder w, ws_status w)"

definition origin :: "string \<Rightarrow> template_step \<Rightarrow> string \<times> string option \<times> string \<times> int \<times> step_status" where
  "origin workflowId t = (workflowId, Some (ts_id t), ts_name t, ts_stepOrder t, S_pending)"

section \<open>Rounding to binary64\<close>

lemma ties_to_even_le: "x \<le> of_int m \<Longrightarrow> ties_to_even x \<le> m"
proof -
  assume le: "x \<le> of_int m"
  have fl: "\<lfloor>x\<rfloor> \<le> m" using le by (simp add: floor_le_iff)
  show ?thesis
  proof (cases "\<lfloor>x\<rfloor> = m")
    case True
    then have "x - of_int \<lfloor>x\<rfloor> \<le> 0" using le by simp
    then show ?thesis using True by (simp add: ties_to_even_def Let_def)
  next
    case False
    then have "\<lfloor>x\<rfloor> + 1 \<le> m" using fl by simp
    then show ?thesis by (simp add: ties_to_even_def Let_def)
  qed
qed

lemma bit_length_eq: "2 ^ k \<le> n \<Longrightarrow> n < 2 ^ Suc k \<Longrightarrow> bit_length n = Suc k"
proof (induction k arbitrary: n)
  case 0
  then have "n = 1" by simp
  then show ?case by (simp add: bit_length.simps)
next
  case (Suc k)
  have "2 ^ k \<le> n div 2" using Suc.prems(1) by auto
  moreover have "n div 2 < 2 ^ Suc k" using Suc.prems(2) by auto
  ultimately have "bit_length (n div 2) = Suc k" by (rule Suc.IH)
  moreover have "0 < (2::nat) ^ Suc k" by simp
  then have "n \<noteq> 0" using Suc.prems(1) by linarith
  ultimately show ?case by (subst bit_length.simps) simp
qed

lemma binade_ge_1:
  assumes "(2::rat) ^ k \<le> q" and "q < 2 ^ Suc k"
  shows "binade q = int k"
proof -
  have one: "1 \<le> q" using assms(1) one_le_power[of "2::rat" k] by linarith
  have "of_int (2 ^ k) \<le> q" using assms(1) by simp
  then have "2 ^ k \<le> \<lfloor>q\<rfloor>" by (simp only: le_floor_iff)
  then have lo: "2 ^ k \<le> nat \<lfloor>q\<rfloor>" by (simp add: le_nat_iff)
  have "q < of_int (2 ^ Suc k)" using assms(2) by simp
  then have "\<lfloor>q\<rfloor> < 2 ^ Suc k" by (simp only: floor_less_iff)
  then have hi: "nat \<lfloor>q\<rfloor> < 2 ^ Suc k" using one by (simp add: nat_less_iff)
  show ?thesis using one bit_length_eq[OF lo hi] by (simp add: binade_def)
qed

lemma binade_lt_1:
  assumes "1 / 2 ^ Suc j \<le> q" and "q < 1 / (2::rat) ^ j"
  shows "binade q = - int (Suc j)"
proof -
  have "(0::rat) < 1 / 2 ^ Suc j" by simp
  then have pos: "0 < q" using assms(1) by (rule less_le_trans)
  have "(1::rat) \<le> 2 ^ j" by (rule one_le_power) simp
  then have "1 / 2 ^ j \<le> (1::rat)" by (simp add: divide_le_eq_1)
  with assms(2) have lt1: "q < 1" by (rule less_le_trans)
  have "2 ^ j < 1 / q" using assms(2) pos by (simp add: field_simps)
  then have "of_int (2 ^ j) < 1 / q" by simp
  then have "2 ^ j < \<lceil>1 / q\<rceil>" by (simp only: less_ceiling_iff)
  then have lo': "int (2 ^ j) \<le> \<lceil>1 / q\<rceil> - 1" by simp
  then have nn: "0 \<le> \<lceil>1 / q\<rceil> - 1" by (rule order_trans[rotated]) simp
  have lo: "2 ^ j \<le> nat (\<lceil>1 / q\<rceil> - 1)" using lo' nn by (simp only: le_nat_iff)
  have "1 / q \<le> 2 ^ Suc j" using assms(1) pos by (simp add: field_simps)
  then have "1 / q \<le> of_int (2 ^ Suc j)" by simp
  then have "\<lceil>1 / q\<rceil> \<le> 2 ^ Suc j" by (simp only: ceiling_le_iff)
  then have "\<lceil>1 / q\<rceil> - 1 < int (2 ^ Suc j)" by simp
  then have hi: "nat (\<lceil>1 / q\<rceil> - 1) < 2 ^ Suc j" using nn by (simp only: nat_less_iff)
  show ?thesis using lt1 bit_length_eq[OF lo hi] by (simp add: binade_def)
qed

lemma binade_scaled:
  assumes "2 ^ 52 \<le> q * 2 ^ k" and "q * 2 ^ k < 2 ^ 53"
  shows "binade q = 52 - int k"
proof (cases "k \<le> 52")
  case True
  define d where "d = 52 - k"
  have k: "52 = d + k" "53 = Suc d + k" using True by (simp_all add: d_def)
  have "(2::rat) ^ d * 2 ^ k \<le> q * 2 ^ k" using assms(1) by (simp add: k(1) power_add)
  then have lo: "2 ^ d \<le> q" by simp
  have "q * 2 ^ k < (2::rat) ^ Suc d * 2 ^ k" using assms(2) by (simp only: k(2) power_add)
  then have hi: "q < 2 ^ Suc d" by simp
  show ?thesis using binade_ge_1[OF lo hi] True by (simp add: d_def)
next
  case False
  define j where "j = k - 53"
  have k: "k = Suc j + 52" "k = j + 53" using False by (simp_all add: j_def)
  have "(2::rat) ^ 52 \<le> q * (2 ^ Suc j * 2 ^ 52)" using assms(1) by (simp only: k(1) power_add)
  then have "1 \<le> q * 2 ^ Suc j" by simp
  then have lo: "1 / 2 ^ Suc j \<le> q" by (simp add: field_simps)
  have "q * (2 ^ j * 2 ^ 53) < (2::rat) ^ 53" using assms(2) by (simp only: k(2) power_add)
  then have "q * 2 ^ j < 1" by simp
  then have hi: "q < 1 / 2 ^ j" by (simp add: field_simps)
  show ?thesis using binade_lt_1[OF lo hi] False by (simp add: j_def)
qed

lemma binary64_scaled:
  assumes "2 ^ 52 \<le> q * 2 ^ k" and "q * 2 ^ k < 2 ^ 53" and "k \<le> 1074"
  shows "binary64 q = Num (of_int (ties_to_even (q * 2 ^ k)) / 2 ^ k)"
proof -
  define t where "t = ties_to_even (q * 2 ^ k)"
  define v where "v = (of_int t :: rat) / 2 ^ k"
  have "(0::rat) < 2 ^ 52" by simp
  then have "0 < q * 2 ^ k" using assms(1) by (rule less_le_trans)
  then have pos: "0 < q" by (simp add: zero_less_mult_iff)
  have e: "max (binade q) (- 1022) = 52 - int k"
    using binade_scaled[OF assms(1,2)] assms(3) by simp
  have ulp: "(2::rat) powi (52 - int k - 52) = 1 / 2 ^ k"
    by (simp add: power_int_def field_simps)
  have "q * 2 ^ k \<le> of_int (2 ^ 53)" using assms(2) by simp
  then have "t \<le> 2 ^ 53" unfolding t_def by (rule ties_to_even_le)
  then have "(of_int t :: rat) \<le> of_int (2 ^ 53)" by (simp only: of_int_le_iff)
  then have "(of_int t :: rat) \<le> 2 ^ 53" by simp
  moreover have "(1::rat) \<le> 2 ^ k" by (rule one_le_power) simp
  ultimately have "of_int t * 1 \<le> (2::rat) ^ 53 * 2 ^ k" by (intro mult_mono) simp_all
  then have v53: "v \<le> 2 ^ 53" by (simp add: v_def field_simps)
  have "(2::rat) ^ 53 < 2 ^ 1024" by (rule power_strict_increasing) simp_all
  with v53 have "v < 2 ^ 1024" by (rule le_less_trans)
  moreover have "(2::rat) powi 1024 = 2 ^ 1024" by (rule power_int_numeral)
  ultimately have fin: "\<not> 2 powi 1024 \<le> v" by (simp only: not_le)
  show ?thesis
    unfolding binary64_def Let_def e ulp using pos fin by (simp add: t_def v_def)
qed

lemma ties_to_even_ratio:
  assumes "0 < b"
  shows "ties_to_even (of_int a / of_int b) = nearest_even a b"
proof -
  have f: "\<lfloor>(of_int a :: rat) / of_int b\<rfloor> = a div b" by (rule floor_divide_of_int_eq)
  have "(of_int a :: rat) = of_int (a div b * b + a mod b)" by simp
  also have "\<dots> = of_int (a div b) * of_int b + of_int (a mod b)" by (simp only: of_int_add of_int_mult)
  finally have d: "(of_int a :: rat) / of_int b - of_int (a div b) = of_int (a mod b) / of_int b"
    using assms by (simp add: field_simps)
  have "(of_int (a mod b) / of_int b < (1::rat) / 2) = (of_int (2 * (a mod b)) < (of_int b :: rat))"
    using assms by (simp add: field_simps)
  then have lt: "(of_int (a mod b) / of_int b < (1::rat) / 2) = (2 * (a mod b) < b)"
    by (simp only: of_int_less_iff)
  have "((1::rat) / 2 < of_int (a mod b) / of_int b) = ((of_int b :: rat) < of_int (2 * (a mod b)))"
    using assms by (simp add: field_simps)
  then have gt: "((1::rat) / 2 < of_int (a mod b) / of_int b) = (b < 2 * (a mod b))"
    by (simp only: of_int_less_iff)
  show ?thesis
    unfolding ties_to_even_def nearest_even_def Let_def f d lt gt by simp
qed

lemma binary64_ratio:
  assumes "0 < b" and "2 ^ 52 * b \<le> a * 2 ^ k" and "a * 2 ^ k < 2 ^ 53 * b" and "k \<le> 1074"
  shows "binary64 (of_int a / of_int b) = Num (of_int (nearest_even (a * 2 ^ k) b) / 2 ^ k)"
proof -
  have b: "(0::rat) < of_int b" using assms(1) by simp
  have "(of_int (2 ^ 52 * b) :: rat) \<le> of_int (a * 2 ^ k)" using assms(2) by (simp only: of_int_le_iff)
  then have lo: "(2::rat) ^ 52 \<le> of_int a / of_int b * 2 ^ k" using b by (simp add: field_simps)
  have "(of_int (a * 2 ^ k) :: rat) < of_int (2 ^ 53 * b)" using assms(3) by (simp only: of_int_less_iff)
  then have hi: "of_int a / of_int b * 2 ^ k < (2::rat) ^ 53" using b by (simp add: field_simps)
  have "(of_int a :: rat) / of_int b * 2 ^ k = of_int (a * 2 ^ k) / of_int b" by simp
  then show ?thesis
    using binary64_scaled[OF lo hi assms(4)] ties_to_even_ratio[OF assms(1), of "a * 2 ^ k"]
    by (simp only:)
qed

lemma percent_eval:
  assumes "0 < n"
    and "2 ^ 52 * int n \<le> int c * 2 ^ k1" and "int c * 2 ^ k1 < 2 ^ 53 * int n" and "k1 \<le> 1074"
    and "X = nearest_even (int c * 2 ^ k1) (int n)"
    and "2 ^ 52 * 2 ^ k1 \<le> X * 100 * 2 ^ k2" and "X * 100 * 2 ^ k2 < 2 ^ 53 * 2 ^ k1" and "k2 \<le> 1074"
    and "Y = nearest_even (X * 100 * 2 ^ k2) (2 ^ k1)"
  shows "percent c n = Num (of_int ((2 * Y + 2 ^ k2) div 2 ^ Suc k2))"
proof -
  have n: "0 < int n" using assms(1) by simp
  have x: "binary64 (of_int (int c) / of_int (int n)) = Num (of_int X / 2 ^ k1)"
    unfolding assms(5) using n assms(2,3,4) by (rule binary64_ratio)
  have p: "(0::int) < 2 ^ k1" by simp
  have y: "binary64 (of_int (X * 100) / of_int (2 ^ k1)) = Num (of_int Y / 2 ^ k2)"
    unfolding assms(9) using p assms(6,7,8) by (rule binary64_ratio)
  have "(of_int Y :: rat) / 2 ^ k2 + 1 / 2 = of_int (2 * Y + 2 ^ k2) / of_int (2 ^ Suc k2)"
    by (simp add: field_simps)
  then have r: "\<lfloor>(of_int Y :: rat) / 2 ^ k2 + 1 / 2\<rfloor> = (2 * Y + 2 ^ k2) div 2 ^ Suc k2"
    by (simp only: floor_divide_of_int_eq)
  have nz: "(of_nat n :: rat) \<noteq> 0" using assms(1) by simp
  have "number_divide (of_length c) (of_length n) = Num (of_int X / 2 ^ k1)"
    using x nz by (simp add: of_length_def)
  moreover have "of_int X / 2 ^ k1 * 100 = (of_int (X * 100) :: rat) / of_int (2 ^ k1)" by simp
  ultimately have "number_times (number_divide (of_length c) (of_length n)) (Num 100)
      = Num (of_int Y / 2 ^ k2)"
    using y by (simp only: number_times.simps)
  then show ?thesis by (simp only: percent_def Math_round.simps r)
qed

lemma percent_23_40: "percent 23 40 = Num 57"
  by (rule percent_eval[where ?k1.0 = 53 and ?k2.0 = 47 and X = 5179139571476070
        and Y = 8092405580431359, THEN trans])
     (simp_all add: nearest_even_def)

lemma percent_1_201: "percent 1 201 = Num 0"
  by (rule percent_eval[where ?k1.0 = 60 and ?k2.0 = 54 and X = 5735927883616154
        and Y = 8962387318150241, THEN trans])
     (simp_all add: nearest_even_def)

lemma percent_2_4: "percent 2 4 = Num 50"
  by (rule percent_eval[where ?k1.0 = 53 and ?k2.0 = 47 and X = 4503599627370496
        and Y = 7036874417766400, THEN trans])
     (simp_all add: nearest_even_def)

lemma percent_all:
  assumes "0 < n"
  shows "percent n n = Num 100"
proof -
  have "percent n n = Num (of_int ((2 * 7036874417766400 + 2 ^ 46) div 2 ^ Suc 46))"
    by (rule percent_eval[where ?k1.0 = 52 and ?k2.0 = 46 and X = 4503599627370496])
       (simp_all add: nearest_even_def assms)
  then show ?thesis by simp
qed

lemma ties_to_even_nonneg: "0 \<le> x \<Longrightarrow> 0 \<le> ties_to_even x"
  by (simp add: ties_to_even_def Let_def)

lemma bit_length_le: "n < 2 ^ k \<Longrightarrow> bit_length n \<le> k"
proof (induction k arbitrary: n)
  case 0
  then show ?case by (simp add: bit_length.simps)
next
  case (Suc k)
  have "n div 2 < 2 ^ k" using Suc.prems by auto
  then have "bit_length (n div 2) \<le> k" by (rule Suc.IH)
  then show ?case by (subst bit_length.simps) simp
qed

lemma binade_le:
  assumes "q \<le> of_int m" and "m < 2 ^ 53"
  shows "binade q \<le> 52"
proof (cases "1 \<le> q")
  case True
  have "\<lfloor>q\<rfloor> \<le> m" using assms(1) by (simp add: floor_le_iff)
  then have "nat \<lfloor>q\<rfloor> < 2 ^ 53" using assms(2) by (simp add: nat_less_iff)
  then have "bit_length (nat \<lfloor>q\<rfloor>) \<le> 53" by (rule bit_length_le)
  then show ?thesis using True by (simp add: binade_def)
next
  case False
  then show ?thesis by (simp add: binade_def)
qed

lemma binary64_bounded:
  assumes "0 \<le> q" and "q \<le> of_int m" and "m < 2 ^ 53"
  shows "\<exists>x. binary64 q = Num x \<and> 0 \<le> x \<and> x \<le> of_int m"
proof (cases "q = 0")
  case True
  then show ?thesis using assms by (simp add: binary64_def)
next
  case False
  define e where "e = max (binade q) (- 1022)"
  define k where "k = nat (52 - e)"
  define t where "t = ties_to_even (q * 2 ^ k)"
  have e: "e \<le> 52" using binade_le[OF assms(2,3)] by (simp add: e_def)
  then have ulp: "(2::rat) powi (e - 52) = 1 / 2 ^ k"
    by (simp add: k_def power_int_def field_simps)
  have "q * 2 ^ k \<le> of_int (m * 2 ^ k)" using assms(2) by simp
  then have t_le: "t \<le> m * 2 ^ k" unfolding t_def by (rule ties_to_even_le)
  have t_ge: "0 \<le> t" unfolding t_def using assms(1) by (intro ties_to_even_nonneg) simp
  define v where "v = (of_int t :: rat) / 2 ^ k"
  have "(of_int t :: rat) \<le> of_int (m * 2 ^ k)" using t_le by (simp only: of_int_le_iff)
  then have v_le: "v \<le> of_int m" by (simp add: v_def field_simps)
  have v_ge: "0 \<le> v" using t_ge by (simp add: v_def)
  have m53: "of_int m < (2::rat) ^ 53"
    using assms(3) by (metis of_int_less_iff of_int_numeral of_int_power)
  have "(2::rat) ^ 53 \<le> 2 ^ 1024" by (rule power_increasing) simp_all
  moreover have "v < 2 ^ 53" using v_le m53 by (rule le_less_trans)
  ultimately have "v < 2 ^ 1024" by (rule less_le_trans[rotated])
  moreover have "(2::rat) powi 1024 = 2 ^ 1024" by (rule power_int_numeral)
  ultimately have fin: "\<not> 2 powi 1024 \<le> v" by (simp only: not_le)
  have "binary64 q = Num v"
    unfolding binary64_def Let_def e_def[symmetric] ulp using False fin by (simp add: t_def v_def)
  then show ?thesis using v_le v_ge by blast
qed

lemma percent_range:
  assumes "c \<le> n" and "0 < n"
  shows "\<exists>p. percent c n = Num (of_int p) \<and> 0 \<le> p \<and> p \<le> 100"
proof -
  have "0 \<le> (of_nat c :: rat) / of_nat n" by simp
  moreover have "(of_nat c :: rat) / of_nat n \<le> of_int 1" using assms by simp
  ultimately obtain x where x: "binary64 (of_nat c / of_nat n) = Num x" "0 \<le> x" "x \<le> 1"
    using binary64_bounded[of "of_nat c / of_nat n" 1] by auto
  have "0 \<le> x * 100" using x(2) by simp
  moreover have "x * 100 \<le> of_int 100" using x(3) by simp
  ultimately obtain y where y: "binary64 (x * 100) = Num y" "0 \<le> y" "y \<le> 100"
    using binary64_bounded[of "x * 100" 100] by auto
  have r: "percent c n = Num (of_int \<lfloor>y + 1 / 2\<rfloor>)"
    using assms(2) x(1) y(1) by (simp add: percent_def of_length_def)
  have "0 \<le> \<lfloor>y + 1 / 2\<rfloor>" using y(2) by simp
  moreover have "\<lfloor>y + 1 / 2\<rfloor> \<le> 100" using y(3) by (simp add: floor_le_iff)
  ultimately show ?thesis using r by blast
qed

section \<open>The step update and the aggregator\<close>

lemma progress_of_percent:
  "progress_of allSteps = percent (length (filter (\<lambda>s. ws_status s = S_completed) allSteps)) (length allSteps)"
  by (simp add: progress_of_def percent_def)

lemma first_row_in: "first_row rows = Some r \<Longrightarrow> r \<in> set rows"
  by (cases rows) (simp_all add: first_row_def)

lemma updated_step_from:
  assumes "fst (updateWorkflowStep id' body t s) = Some step"
  shows "\<exists>r \<in> set (workflowSteps s). ws_id r = id' \<and> step = set_workflow_step body t r"
  using first_row_in[of "returning (\<lambda>w. ws_id w = id') (set_workflow_step body t) (workflowSteps s)" step] assms
  by (auto simp: updateWorkflowStep_def returning_def)

lemma updated_step_in:
  assumes "fst (updateWorkflowStep id' body t s) = Some step"
  shows "step \<in> set (workflowSteps (snd (updateWorkflowStep id' body t s)))"
proof -
  obtain r where r: "r \<in> set (workflowSteps s)" "ws_id r = id'" "step = set_workflow_step body t r"
    using updated_step_from[OF assms] by blast
  then show ?thesis by (force simp: updateWorkflowStep_def update_where_def)
qed

lemma updated_step_status:
  assumes "fst (updateWorkflowStep id' body t s) = Some step" and "sp_status body = Some status"
  shows "ws_status step = status"
  using updated_step_from[OF assms(1)] assms(2) by (auto simp: set_workflow_step_def supplied_def)

lemma step_in_getWorkflowSteps:
  "step \<in> set (workflowSteps s) \<Longrightarrow> step \<in> set (getWorkflowSteps (ws_workflowId step) s)"
  by (simp add: getWorkflowSteps_def)

lemma completed_counts:
  assumes "step \<in> set allSteps" and "ws_status step = S_completed"
  shows "0 < length (filter (\<lambda>s. ws_status s = S_completed) allSteps)"
    and "length (filter (\<lambda>s. ws_status s = S_completed) allSteps) \<le> length allSteps"
    and "0 < length allSteps"
proof -
  have "step \<in> set (filter (\<lambda>s. ws_status s = S_completed) allSteps)" using assms by simp
  then show "0 < length (filter (\<lambda>s. ws_status s = S_completed) allSteps)"
    by (metis length_pos_if_in_set)
  show "length (filter (\<lambda>s. ws_status s = S_completed) allSteps) \<le> length allSteps" by simp
  show "0 < length allSteps" using assms(1) by (metis length_pos_if_in_set)
qed

lemma integer_column_percent: "0 \<le> p \<Longrightarrow> p \<le> 100 \<Longrightarrow> integer_column (Num (of_int p)) = Inr p"
  by (simp add: integer_column_def)

lemma set_workflow_written:
  "set_workflow (workflowUpdate (Num (of_int p)) t_done) (Some p) t_upd = written p t_done t_upd"
  by (rule ext) (simp add: set_workflow_def workflowUpdate_def no_fields_def supplied_def written_def)

lemma aggregator_effect:
  assumes "progress_of (getWorkflowSteps workflowId s) = Num (of_int p)" and "0 \<le> p" and "p \<le> 100"
  shows "progress_aggregator t_done t_upd workflowId s =
           Inr (s\<lparr>workflows := update_where (\<lambda>w. wf_id w = workflowId) (written p t_done t_upd) (workflows s)\<rparr>)"
proof -
  have "wp_progress (workflowUpdate (Num (of_int p)) t_done) = Some (Num (of_int p))"
    by (simp add: workflowUpdate_def no_fields_def)
  then show ?thesis
    using assms integer_column_percent[OF assms(2,3)]
    by (simp add: progress_aggregator_def updateWorkflow_def Let_def set_workflow_written)
qed

lemma patch_completed:
  assumes "sp_status body = Some S_completed"
    and "fst (updateWorkflowStep id' body t_step s) = Some step"
    and "ws_workflowId step \<noteq> []"
  shows "\<exists>p. progress_of (getWorkflowSteps (ws_workflowId step) (snd (updateWorkflowStep id' body t_step s)))
               = Num (of_int p) \<and> 0 \<le> p \<and> p \<le> 100 \<and>
             patch_workflow_steps_id t_step t_done t_upd id' body s =
               (Response 200 (Json step),
                (snd (updateWorkflowStep id' body t_step s))
                  \<lparr>workflows := update_where (\<lambda>w. wf_id w = ws_workflowId step) (written p t_done t_upd)
                     (workflows (snd (updateWorkflowStep id' body t_step s)))\<rparr>)"
proof -
  define s1 where "s1 = snd (updateWorkflowStep id' body t_step s)"
  define allSteps where "allSteps = getWorkflowSteps (ws_workflowId step) s1"
  have u: "updateWorkflowStep id' body t_step s = (Some step, s1)"
    using assms(2) by (simp add: s1_def prod_eq_iff)
  have "step \<in> set allSteps"
    unfolding allSteps_def s1_def by (intro step_in_getWorkflowSteps updated_step_in assms(2))
  moreover have "ws_status step = S_completed" using assms(2,1) by (rule updated_step_status)
  ultimately obtain p where p: "percent (length (filter (\<lambda>s. ws_status s = S_completed) allSteps)) (length allSteps) = Num (of_int p)"
      "0 \<le> p" "p \<le> 100"
    using percent_range completed_counts by blast
  then have pr: "progress_of (getWorkflowSteps (ws_workflowId step) s1) = Num (of_int p)"
    by (simp add: progress_of_percent allSteps_def)
  have "patch_workflow_steps_id t_step t_done t_upd id' body s =
      (Response 200 (Json step), s1\<lparr>workflows := update_where (\<lambda>w. wf_id w = ws_workflowId step) (written p t_done t_upd) (workflows s1)\<rparr>)"
    using assms(1,3) by (simp add: patch_workflow_steps_id_def u aggregator_effect[OF pr p(2,3)])
  then show ?thesis using pr p(2,3) unfolding s1_def by blast
qed

section \<open>The example workflow\<close>

lemma count_below: "length (filter (\<lambda>i. i < c) [0..<n]) = min c n"
  by (induction n) auto

lemma decimal_not_empty: "decimal i \<noteq> []"
  by (subst decimal.simps) simp

lemma example_update:
  "updateWorkflowStep ''target'' (status_only S_completed) t (example_store st pr (steps_of_w1 n c)) =
     (Some (target_step\<lparr>ws_status := S_completed, ws_updatedAt := t\<rparr>),
      example_store st pr ((target_step\<lparr>ws_status := S_completed, ws_updatedAt := t\<rparr>) # tl (steps_of_w1 n c)))"
  by (simp add: updateWorkflowStep_def example_store_def steps_of_w1_def target_step_def step_row_def
      status_only_def set_workflow_step_def supplied_def returning_def update_where_def first_row_def
      filter_empty_conv)

lemma example_steps_all:
  "getWorkflowSteps ''w1'' (example_store st pr (x # tl (steps_of_w1 n c))) =
     sort_key ws_stepOrder (filter (\<lambda>w. ws_workflowId w = ''w1'') [x] @ tl (steps_of_w1 n c))"
  by (simp add: getWorkflowSteps_def example_store_def steps_of_w1_def step_row_def filter_id_conv)

lemma example_progress:
  "progress_of (getWorkflowSteps ''w1''
     (snd (updateWorkflowStep ''target'' (status_only S_completed) t (example_store st pr (steps_of_w1 n c)))))
   = percent (Suc (min c n)) (Suc n)"
proof -
  let ?x = "target_step\<lparr>ws_status := S_completed, ws_updatedAt := t\<rparr>"
  let ?rest = "tl (steps_of_w1 n c)"
  let ?all = "getWorkflowSteps ''w1'' (example_store st pr (?x # ?rest))"
  have all: "?all = sort_key ws_stepOrder (?x # ?rest)"
    by (simp add: example_steps_all target_step_def step_row_def)
  have len: "length ?all = Suc n" unfolding all by (simp add: steps_of_w1_def)
  have "length (filter (\<lambda>s. ws_status s = S_completed) ?rest) = min c n"
    using count_below[of c n] by (simp add: steps_of_w1_def step_row_def filter_map comp_def if_distrib cong: if_cong)
  then have "length (filter (\<lambda>s. ws_status s = S_completed) (?x # ?rest)) = Suc (min c n)"
    by simp
  then have cnt: "length (filter (\<lambda>s. ws_status s = S_completed) ?all) = Suc (min c n)"
    by (simp only: all filter_sort length_sort)
  show ?thesis by (simp only: example_update snd_conv progress_of_percent len cnt)
qed

lemma workflows_updateWorkflowStep:
  "workflows (snd (updateWorkflowStep id' body t s)) = workflows s"
  by (simp add: updateWorkflowStep_def)

lemma example_patch:
  assumes "percent (Suc (min c n)) (Suc n) = Num (of_int p)"
  shows "workflows (snd (patch_workflow_steps_id t1 t2 t3 ''target'' (status_only S_completed)
            (example_store st pr (steps_of_w1 n c))))
         = [written p t2 t3 (workflow_row ''w1'' ''t1'' st pr)]"
proof -
  let ?s = "example_store st pr (steps_of_w1 n c)"
  let ?step = "target_step\<lparr>ws_status := S_completed, ws_updatedAt := t1\<rparr>"
  have h1: "sp_status (status_only S_completed) = Some S_completed" by (simp add: status_only_def)
  have h2: "fst (updateWorkflowStep ''target'' (status_only S_completed) t1 ?s) = Some ?step"
    by (simp add: example_update)
  have h3: "ws_workflowId ?step \<noteq> []" by (simp add: target_step_def step_row_def)
  have w: "ws_workflowId ?step = ''w1''" by (simp add: target_step_def step_row_def)
  obtain p' where p': "progress_of (getWorkflowSteps (ws_workflowId ?step)
        (snd (updateWorkflowStep ''target'' (status_only S_completed) t1 ?s))) = Num (of_int p')"
     and r: "patch_workflow_steps_id t1 t2 t3 ''target'' (status_only S_completed) ?s =
               (Response 200 (Json ?step),
                (snd (updateWorkflowStep ''target'' (status_only S_completed) t1 ?s))
                  \<lparr>workflows := update_where (\<lambda>w. wf_id w = ws_workflowId ?step) (written p' t2 t3)
                     (workflows (snd (updateWorkflowStep ''target'' (status_only S_completed) t1 ?s)))\<rparr>)"
    using patch_completed[OF h1 h2 h3, of t2 t3] by blast
  have "p' = p" using p' assms by (simp add: w example_progress)
  then show ?thesis
    by (simp only: r snd_conv)
       (simp add: w workflows_updateWorkflowStep example_store_def update_where_def workflow_row_def)
qed

lemma example_steps_before:
  "getWorkflowSteps ''w1'' (example_store st pr (steps_of_w1 n c)) =
     sort_key ws_stepOrder (steps_of_w1 n c)"
  by (simp add: getWorkflowSteps_def example_store_def steps_of_w1_def target_step_def step_row_def
      filter_id_conv)

lemma example_counts_before:
  "length (getWorkflowSteps ''w1'' (example_store st pr (steps_of_w1 n c))) = Suc n"
  "length (filter (\<lambda>s. ws_status s = S_completed)
     (getWorkflowSteps ''w1'' (example_store st pr (steps_of_w1 n c)))) = min c n"
proof -
  show "length (getWorkflowSteps ''w1'' (example_store st pr (steps_of_w1 n c))) = Suc n"
    unfolding example_steps_before by (simp add: steps_of_w1_def)
  have "length (filter (\<lambda>s. ws_status s = S_completed) (steps_of_w1 n c)) = min c n"
    using count_below[of c n]
    by (simp add: steps_of_w1_def target_step_def step_row_def filter_map comp_def if_distrib cong: if_cong)
  then show "length (filter (\<lambda>s. ws_status s = S_completed)
     (getWorkflowSteps ''w1'' (example_store st pr (steps_of_w1 n c)))) = min c n"
    by (simp only: example_steps_before filter_sort length_sort)
qed

lemma example_hyp1: "sp_status (status_only S_completed) = Some S_completed"
  by (simp add: status_only_def)

lemma example_hyp2:
  "fst (updateWorkflowStep ''target'' (status_only S_completed) t (example_store st pr (steps_of_w1 n c)))
     = Some (target_step\<lparr>ws_status := S_completed, ws_updatedAt := t\<rparr>)"
  by (simp add: example_update)

lemma example_hyp3: "ws_workflowId (target_step\<lparr>ws_status := S_completed, ws_updatedAt := t\<rparr>) \<noteq> []"
  by (simp add: target_step_def step_row_def)

lemma example_hyp4: "ws_workflowId (target_step\<lparr>ws_status := S_completed, ws_updatedAt := t\<rparr>) = ''w1''"
  by (simp add: target_step_def step_row_def)

lemma written_eq:
  "written p t_done t_upd =
     (\<lambda>w. w\<lparr> wf_status := (if p = 100 then W_completed else if 0 < p then W_in_progress else wf_status w),
              wf_completedAt := (if p = 100 then Some t_done else wf_completedAt w),
              wf_progress := p,
              wf_updatedAt := t_upd \<rparr>)"
  by (rule ext) (simp add: written_def)

section \<open>The aggregator and other requests\<close>

text \<open>
  In a run of the handler that no other request interleaves, the steps that the aggregator
  loads contain the step that was just updated: their number is positive, the progress is
  an integer from 0 to 100, and the update of the workflow is carried out.
\<close>

lemma aggregator_loads_the_updated_step:
  assumes "sp_status body = Some S_completed"
    and "fst (updateWorkflowStep id' body t_step s) = Some step"
    and "ws_workflowId step \<noteq> []"
  shows "step \<in> set (getWorkflowSteps (ws_workflowId step) (snd (updateWorkflowStep id' body t_step s))) \<and>
         0 < length (getWorkflowSteps (ws_workflowId step) (snd (updateWorkflowStep id' body t_step s))) \<and>
         (\<exists>p. progress_of (getWorkflowSteps (ws_workflowId step)
                  (snd (updateWorkflowStep id' body t_step s))) = Num (of_int p) \<and> 0 \<le> p \<and> p \<le> 100) \<and>
         fst (patch_workflow_steps_id t_step t_done t_upd id' body s) = Response 200 (Json step) \<and>
         map wf_updatedAt (workflows (snd (patch_workflow_steps_id t_step t_done t_upd id' body s))) =
           map (\<lambda>w. if wf_id w = ws_workflowId step then t_upd else wf_updatedAt w) (workflows s)"
proof -
  let ?all = "getWorkflowSteps (ws_workflowId step) (snd (updateWorkflowStep id' body t_step s))"
  have i: "step \<in> set ?all"
    by (intro step_in_getWorkflowSteps updated_step_in assms(2))
  then have n: "0 < length ?all" by (metis length_pos_if_in_set)
  obtain p where p: "progress_of ?all = Num (of_int p)" "0 \<le> p" "p \<le> 100"
    and r: "patch_workflow_steps_id t_step t_done t_upd id' body s =
              (Response 200 (Json step),
               (snd (updateWorkflowStep id' body t_step s))
                 \<lparr>workflows := update_where (\<lambda>w. wf_id w = ws_workflowId step) (written p t_done t_upd)
                    (workflows (snd (updateWorkflowStep id' body t_step s)))\<rparr>)"
    using patch_completed[OF assms, of t_done t_upd] by blast
  have "map wf_updatedAt (workflows (snd (patch_workflow_steps_id t_step t_done t_upd id' body s))) =
           map (\<lambda>w. if wf_id w = ws_workflowId step then t_upd else wf_updatedAt w) (workflows s)"
    by (simp add: r workflows_updateWorkflowStep update_where_def written_def)
  then show ?thesis using i n p r by auto
qed

text \<open>The handler is the update of the step followed by the rest.\<close>

lemma patch_workflow_steps_id_split:
  "patch_workflow_steps_id t_step t_done t_upd id' body s =
     (case updateWorkflowStep id' body t_step s of
        (result, s1) \<Rightarrow> after_step_update t_done t_upd body result s1)"
  by (simp add: patch_workflow_steps_id_def after_step_update_def split: prod.splits option.splits)

text \<open>
  Without steps the progress is \<open>NaN\<close>, which the integer column refuses: the aggregator
  throws and writes nothing.
\<close>

lemma aggregator_on_no_steps:
  assumes "getWorkflowSteps workflowId s = []"
  shows "progress_of (getWorkflowSteps workflowId s) = NaN"
    and "progress_aggregator t_done t_upd workflowId s = Inl DbError"
  using assms
  by (simp_all add: progress_of_def of_length_def progress_aggregator_def workflowUpdate_def
      no_fields_def updateWorkflow_def integer_column_def)

section \<open>Users and validation\<close>

lemma omitPassword_no_key: "\<not> has_key ''password'' (omitPassword obj)"
  by (auto simp: has_key_def omitPassword_def)

lemma user_object_has_password: "has_key ''password'' (user_object u)"
  by (simp add: has_key_def user_object_def)

lemma example_get_users:
  "get_users (example_store W_pending 0 []) =
     Response 200 (Json [omitPassword (user_object (user_row ''u1'' ''jane''))])"
  by (simp add: get_users_def getUsers_def example_store_def)

lemma example_get_users_id:
  "get_users_id ''u1'' (example_store W_pending 0 []) =
     Response 200 (Json (omitPassword (user_object (user_row ''u1'' ''jane''))))"
  by (simp add: get_users_id_def getUser_def example_store_def first_row_def user_row_def)

lemma example_post_users:
  "fst (post_users example_hash example_uuid example_clock
     [(''email'', JsString ''ann@company.com''), (''username'', JsString ''ann''),
      (''password'', JsString ''secret''),
      (''firstName'', JsString ''Ann''), (''lastName'', JsString ''Lee'')]
     (example_store W_pending 0 []))
   = Response 201 (Json
      [(''id'', JsString ''new0''), (''email'', JsString ''ann@company.com''),
       (''username'', JsString ''ann''), (''firstName'', JsString ''Ann''),
       (''lastName'', JsString ''Lee''), (''role'', JsString ''viewer''),
       (''departmentId'', JsNull), (''avatarUrl'', JsNull), (''isActive'', JsBool True),
       (''createdAt'', JsDate 100), (''updatedAt'', JsDate 100)])"
  by (simp add: post_users_def insertUserSchema_safeParse_def z_string_def z_role_optional_def
      z_string_nullable_optional_def z_boolean_optional_def createUser_def supplied_def Let_def
      createAuditLog_def storage_createAuditLog_def omitPassword_def user_object_def nullable_def
      example_uuid_def example_clock_def decimal.simps example_store_def user_row_def)

lemma example_patch_users_id:
  "fst (patch_users_id example_hash example_uuid example_clock 7 ''u1''
     (no_user_fields\<lparr>up_password := Some ''secret''\<rparr>) (example_store W_pending 0 []))
   = Response 200 (Json (omitPassword (user_object
       ((user_row ''u1'' ''jane'')\<lparr>user_password := example_hash ''secret'', user_updatedAt := 7\<rparr>))))"
  by (simp add: patch_users_id_def updateUser_def no_user_fields_def example_store_def
      returning_def update_where_def first_row_def set_user_def supplied_def user_row_def Let_def
      createAuditLog_def storage_createAuditLog_def)

text \<open>A second user with the email of a user of the table is refused by the database.\<close>

lemma example_post_users_duplicate:
  "post_users example_hash example_uuid example_clock
     [(''email'', JsString ''jane@company.com''), (''username'', JsString ''ann''),
      (''password'', JsString ''secret''),
      (''firstName'', JsString ''Ann''), (''lastName'', JsString ''Lee'')]
     (example_store W_pending 0 [])
   = (Threw DbError, example_store W_pending 0 [])"
  by (simp add: post_users_def insertUserSchema_safeParse_def z_string_def z_role_optional_def
      z_string_nullable_optional_def z_boolean_optional_def createUser_def supplied_def Let_def
      example_store_def user_row_def)

text \<open>A role that is not a string is reported with the values that the enum expects.\<close>

lemma example_role_issue:
  "z_role_optional ''role'' [(''role'', JsNumber 1)] =
     Inl [Invalid_type [''role'']
            (CHR 0x27 # ''admin'' @ CHR 0x27 # '' | '' @ CHR 0x27 # ''hr_manager'' @ CHR 0x27 # '' | '' @
             CHR 0x27 # ''it_admin'' @ CHR 0x27 # '' | '' @ CHR 0x27 # ''manager'' @ CHR 0x27 # '' | '' @
             CHR 0x27 # ''viewer'' @ [CHR 0x27])
            ''number'']"
  by (simp add: z_role_optional_def)

lemma reports_field_left: "reports i r \<Longrightarrow> reports i (field r x)"
  by (cases r; cases x) (simp_all add: reports_def)

lemma reports_field_right: "reports i x \<Longrightarrow> reports i (field r x)"
  by (cases r; cases x) (simp_all add: reports_def)

lemma safeParse_without_password:
  assumes "map_of body ''password'' = None"
  shows "reports (Invalid_type [''password''] ''string'' ''undefined'') (insertUserSchema_safeParse body)"
proof -
  have "reports (Invalid_type [''password''] ''string'' ''undefined'') (z_string ''password'' body)"
    using assms by (simp add: reports_def z_string_def)
  then show ?thesis
    unfolding insertUserSchema_safeParse_def
    by (intro reports_field_left reports_field_right)
qed

section \<open>Audit logs\<close>

lemma employee_handlers_leave_auditLogs:
  "auditLogs (snd (patch_employees_id now id' body s)) = auditLogs s"
  "auditLogs (snd (delete_employees_id id' s)) = auditLogs s"
  by (simp_all add: patch_employees_id_def updateEmployee_def delete_employees_id_def
      deleteEmployee_def Let_def split: option.splits)

lemma user_handlers_append_one_log:
  "fst (patch_users_id hash uuid clock now id' body s) = Response 200 b \<Longrightarrow>
   length (auditLogs (snd (patch_users_id hash uuid clock now id' body s))) = Suc (length (auditLogs s))"
  "length (auditLogs (snd (delete_users_id uuid clock id' s))) = Suc (length (auditLogs s))"
  by (auto simp: patch_users_id_def updateUser_def delete_users_id_def deleteUser_def
      createAuditLog_def storage_createAuditLog_def Let_def split: option.splits if_splits)

section \<open>Workflows from templates\<close>

lemma clone_steps_rows:
  "\<exists>new. clone_steps uuid clock k workflow tsteps s = s\<lparr>workflowSteps := workflowSteps s @ new\<rparr> \<and>
         map cloned new = map (origin (wf_id workflow)) tsteps"
proof (induction tsteps arbitrary: k s)
  case Nil
  show ?case by simp
next
  case (Cons t rest)
  let ?step = "fst (createWorkflowStep (uuid k) (clock k)
          \<lparr> is_workflowId = wf_id workflow, is_templateStepId = Some (ts_id t),
            is_name = ts_name t, is_description = ts_description t,
            is_stepOrder = ts_stepOrder t, is_status = Some S_pending,
            is_assigneeId = ts_assigneeId t, is_dueDate = None, is_startedAt = None,
            is_completedAt = None, is_completedBy = None, is_notes = None,
            is_metadata = None \<rparr> s)"
  let ?s1 = "s\<lparr>workflowSteps := workflowSteps s @ [?step]\<rparr>"
  obtain new where new: "clone_steps uuid clock (Suc k) workflow rest ?s1
       = ?s1\<lparr>workflowSteps := workflowSteps ?s1 @ new\<rparr>"
      "map cloned new = map (origin (wf_id workflow)) rest"
    using Cons.IH[of "Suc k" ?s1] by blast
  have c: "cloned ?step = origin (wf_id workflow) t"
    by (simp add: cloned_def origin_def createWorkflowStep_def supplied_def Let_def)
  have "clone_steps uuid clock k workflow (t # rest) s
       = s\<lparr>workflowSteps := workflowSteps s @ (?step # new)\<rparr>"
    using new(1) by (simp add: createWorkflowStep_def Let_def)
  moreover have "map cloned (?step # new) = map (origin (wf_id workflow)) (t # rest)"
    using new(2) c by simp
  ultimately show ?case by blast
qed

lemma sorted_getTemplateSteps: "sorted (map ts_stepOrder (getTemplateSteps templateId s))"
  by (simp add: getTemplateSteps_def)

lemma post_workflows_steps:
  assumes "iw_templateId data \<noteq> []"
  shows "\<exists>new. fst (post_workflows uuid clock (Inr data) s) =
                  Response 201 (Json (fst (createWorkflow (uuid 0) (clock 0) data s))) \<and>
               workflowSteps (snd (post_workflows uuid clock (Inr data) s)) = workflowSteps s @ new \<and>
               map cloned new = map (origin (uuid 0)) (getTemplateSteps (iw_templateId data) s)"
proof -
  let ?w = "fst (createWorkflow (uuid 0) (clock 0) data s)"
  let ?s1 = "snd (createWorkflow (uuid 0) (clock 0) data s)"
  have id: "wf_id ?w = uuid 0" by (simp add: createWorkflow_def Let_def)
  have t: "getTemplateSteps (iw_templateId data) ?s1 = getTemplateSteps (iw_templateId data) s"
    by (simp add: createWorkflow_def getTemplateSteps_def Let_def)
  have ws: "workflowSteps ?s1 = workflowSteps s" by (simp add: createWorkflow_def Let_def)
  obtain new where new: "clone_steps uuid clock (Suc 0) ?w (getTemplateSteps (iw_templateId data) s) ?s1
       = ?s1\<lparr>workflowSteps := workflowSteps ?s1 @ new\<rparr>"
      "map cloned new = map (origin (wf_id ?w)) (getTemplateSteps (iw_templateId data) s)"
    using clone_steps_rows[of uuid clock "Suc 0" ?w "getTemplateSteps (iw_templateId data) s" ?s1] by blast
  have "fst (post_workflows uuid clock (Inr data) s) = Response 201 (Json ?w)"
    using assms by (simp add: post_workflows_def Let_def case_prod_beta)
  moreover have "workflowSteps (snd (post_workflows uuid clock (Inr data) s)) = workflowSteps s @ new"
    using assms
    by (simp add: post_workflows_def Let_def case_prod_beta t new(1) ws createAuditLog_def
        storage_createAuditLog_def)
  ultimately show ?thesis using new(2) id by auto
qed

lemma map_projection:
  assumes "map f xs = map g ys"
  shows "map (\<lambda>x. h (f x)) xs = map (\<lambda>y. h (g y)) ys"
  using arg_cong[OF assms, of "map h"] by (simp add: comp_def)

lemma example_template_steps:
  "getTemplateSteps ''t1'' (example_store st pr steps) =
     [template_step_row ''a'' ''t1'' ''A'' 1, template_step_row ''b'' ''t1'' ''B'' 2]"
  by (simp add: getTemplateSteps_def example_store_def template_step_row_def)

section \<open>The claims\<close>

text \<open>
  C1. Claimed: with \<open>N\<close> steps of which \<open>K\<close> are completed, completing one more step sets
  the progress to \<open>100 * (K + 1) / N\<close> rounded to the nearest integer, a half going up.
  The code divides first and multiplies then, in binary64: for the workflow \<open>w1\<close> with 40
  steps of which 22 are completed, completing the step \<open>target\<close> writes the progress 57,
  whereas \<open>100 * 23 / 40 = 57.5\<close> rounds to 58.
\<close>

theorem progress_of_23_of_40_steps_is_57:
  "length (getWorkflowSteps ''w1'' (example_store W_in_progress 55 (steps_of_w1 39 22))) = 40 \<and>
   length (filter (\<lambda>s. ws_status s = S_completed)
     (getWorkflowSteps ''w1'' (example_store W_in_progress 55 (steps_of_w1 39 22)))) = 22 \<and>
   fst (patch_workflow_steps_id 7 8 9 ''target'' (status_only S_completed)
      (example_store W_in_progress 55 (steps_of_w1 39 22)))
     = Response 200 (Json (target_step\<lparr>ws_status := S_completed, ws_updatedAt := 7\<rparr>)) \<and>
   map wf_progress (workflows (snd (patch_workflow_steps_id 7 8 9 ''target'' (status_only S_completed)
      (example_store W_in_progress 55 (steps_of_w1 39 22))))) = [57] \<and>
   \<lfloor>100 * (22 + 1) / 40 + 1 / 2 :: rat\<rfloor> = 58"
proof (intro conjI)
  show "map wf_progress (workflows (snd (patch_workflow_steps_id 7 8 9 ''target'' (status_only S_completed)
      (example_store W_in_progress 55 (steps_of_w1 39 22))))) = [57]"
    using example_patch[of 22 39 57 7 8 9 W_in_progress 55] percent_23_40
    by (simp add: written_def)
  show "fst (patch_workflow_steps_id 7 8 9 ''target'' (status_only S_completed)
      (example_store W_in_progress 55 (steps_of_w1 39 22)))
     = Response 200 (Json (target_step\<lparr>ws_status := S_completed, ws_updatedAt := 7\<rparr>))"
    using patch_completed[OF example_hyp1 example_hyp2 example_hyp3, of 7 W_in_progress 55 39 22 8 9] by auto
  show "\<lfloor>100 * (22 + 1) / 40 + 1 / 2 :: rat\<rfloor> = 58"
    using floor_divide_of_int_eq[of 116 2, where ?'a = rat] by simp
qed (simp_all add: example_counts_before)

text \<open>
  C2. Whenever the aggregator runs (the body sets the status \<open>completed\<close>, the step exists
  and has a workflow), the progress is an integer \<open>p\<close>; the update carries the status
  \<open>completed\<close> and the completion time exactly when \<open>p = 100\<close>, the status \<open>in_progress\<close>
  when \<open>0 < p < 100\<close> and no status when \<open>p = 0\<close>, so never \<open>pending\<close>; every row of the
  workflow is rewritten accordingly; and when all steps of the workflow are completed,
  \<open>p = 100\<close>.
\<close>

theorem completed_step_sets_workflow_status:
  assumes "sp_status body = Some S_completed"
    and "fst (updateWorkflowStep id' body t_step s) = Some step"
    and "ws_workflowId step \<noteq> []"
  shows "\<exists>p. progress_of (getWorkflowSteps (ws_workflowId step)
                 (snd (updateWorkflowStep id' body t_step s))) = Num (of_int p) \<and>
           wp_status (workflowUpdate (Num (of_int p)) t_done) =
             (if p = 100 then Some W_completed else if 0 < p then Some W_in_progress else None) \<and>
           wp_completedAt (workflowUpdate (Num (of_int p)) t_done) =
             (if p = 100 then Some (Some t_done) else None) \<and>
           workflows (snd (patch_workflow_steps_id t_step t_done t_upd id' body s)) =
             update_where (\<lambda>w. wf_id w = ws_workflowId step)
               (\<lambda>w. w\<lparr> wf_status := (if p = 100 then W_completed
                                       else if 0 < p then W_in_progress else wf_status w),
                        wf_completedAt := (if p = 100 then Some t_done else wf_completedAt w),
                        wf_progress := p,
                        wf_updatedAt := t_upd \<rparr>)
               (workflows s) \<and>
           (list_all (\<lambda>w. ws_status w = S_completed)
              (getWorkflowSteps (ws_workflowId step) (snd (updateWorkflowStep id' body t_step s)))
            \<longrightarrow> p = 100)"
proof -
  let ?all = "getWorkflowSteps (ws_workflowId step) (snd (updateWorkflowStep id' body t_step s))"
  obtain p where p: "progress_of ?all = Num (of_int p)"
    and r: "patch_workflow_steps_id t_step t_done t_upd id' body s =
              (Response 200 (Json step),
               (snd (updateWorkflowStep id' body t_step s))
                 \<lparr>workflows := update_where (\<lambda>w. wf_id w = ws_workflowId step) (written p t_done t_upd)
                    (workflows (snd (updateWorkflowStep id' body t_step s)))\<rparr>)"
    using patch_completed[OF assms, of t_done t_upd] by blast
  have st: "wp_status (workflowUpdate (Num (of_int p)) t_done) =
             (if p = 100 then Some W_completed else if 0 < p then Some W_in_progress else None)"
    by (simp add: workflowUpdate_def no_fields_def)
  have ca: "wp_completedAt (workflowUpdate (Num (of_int p)) t_done) =
             (if p = 100 then Some (Some t_done) else None)"
    by (simp add: workflowUpdate_def no_fields_def)
  have w: "workflows (snd (patch_workflow_steps_id t_step t_done t_upd id' body s)) =
             update_where (\<lambda>w. wf_id w = ws_workflowId step) (written p t_done t_upd) (workflows s)"
    by (simp add: r workflows_updateWorkflowStep)
  have full: "p = 100" if a: "list_all (\<lambda>w. ws_status w = S_completed) ?all"
  proof -
    have "step \<in> set ?all"
      by (intro step_in_getWorkflowSteps updated_step_in assms(2))
    then have n: "0 < length ?all" by (metis length_pos_if_in_set)
    have "filter (\<lambda>w. ws_status w = S_completed) ?all = ?all"
      using a by (simp add: list_all_iff)
    then have "progress_of ?all = percent (length ?all) (length ?all)"
      by (simp add: progress_of_percent)
    then have "Num (of_int p) = Num 100" using p percent_all[OF n] by simp
    then show ?thesis by simp
  qed
  show ?thesis using p st ca w full unfolding written_eq by blast
qed

theorem completed_step_sets_workflow_status_witness:
  "sp_status (status_only S_completed) = Some S_completed \<and>
   fst (updateWorkflowStep ''target'' (status_only S_completed) 7
          (example_store W_pending 0 (steps_of_w1 3 1)))
     = Some (target_step\<lparr>ws_status := S_completed, ws_updatedAt := 7\<rparr>) \<and>
   ws_workflowId (target_step\<lparr>ws_status := S_completed, ws_updatedAt := 7\<rparr>) \<noteq> [] \<and>
   workflows (snd (patch_workflow_steps_id 7 8 9 ''target'' (status_only S_completed)
      (example_store W_pending 0 (steps_of_w1 3 1))))
     = [(workflow_row ''w1'' ''t1'' W_in_progress 50)\<lparr>wf_updatedAt := 9\<rparr>]"
proof -
  let ?s = "example_store W_pending 0 (steps_of_w1 3 1)"
  let ?step = "target_step\<lparr>ws_status := S_completed, ws_updatedAt := 7\<rparr>"
  note h = example_hyp1 example_hyp2[of 7 W_pending 0 3 1] example_hyp3[of 7]
  obtain p where p: "progress_of (getWorkflowSteps (ws_workflowId ?step)
        (snd (updateWorkflowStep ''target'' (status_only S_completed) 7 ?s))) = Num (of_int p)"
    and w: "workflows (snd (patch_workflow_steps_id 7 8 9 ''target'' (status_only S_completed) ?s)) =
             update_where (\<lambda>w. wf_id w = ws_workflowId ?step)
               (\<lambda>w. w\<lparr> wf_status := (if p = 100 then W_completed
                                       else if 0 < p then W_in_progress else wf_status w),
                        wf_completedAt := (if p = 100 then Some 8 else wf_completedAt w),
                        wf_progress := p,
                        wf_updatedAt := 9 \<rparr>)
               (workflows ?s)"
    using completed_step_sets_workflow_status[OF h, of 8 9] by blast
  have "p = 50" using p percent_2_4 by (simp add: example_hyp4 example_progress numeral_2_eq_2)
  then have "workflows (snd (patch_workflow_steps_id 7 8 9 ''target'' (status_only S_completed) ?s))
     = [(workflow_row ''w1'' ''t1'' W_in_progress 50)\<lparr>wf_updatedAt := 9\<rparr>]"
    unfolding w by (simp add: example_hyp4 example_store_def update_where_def workflow_row_def)
  then show ?thesis using h by blast
qed

text \<open>
  C3. Claimed: when the workflow of the updated step has no steps, the aggregator does not
  divide by zero and skips the update of the workflow. The code has no such test. The
  workflow \<open>w1\<close> has the one step \<open>target\<close>. A first request completes this step and is
  suspended after \<^verbatim>\<open>storage.updateWorkflowStep\<close>; a second request moves the step to the
  workflow \<open>w2\<close>; the first request resumes, loads the steps of \<open>w1\<close>, which are none,
  divides \<open>0 / 0\<close>, and passes the progress \<open>NaN\<close> to \<^verbatim>\<open>storage.updateWorkflow\<close>, which
  throws: the request fails where the claim has it skip the update. No row of the
  workflows is changed.
\<close>

theorem aggregator_divides_zero_by_zero_when_step_is_moved:
  "fst (updateWorkflowStep ''target'' (status_only S_completed) 7
          (example_store W_pending 0 (steps_of_w1 0 0)))
     = Some (target_step\<lparr>ws_status := S_completed, ws_updatedAt := 7\<rparr>) \<and>
   ws_workflowId (target_step\<lparr>ws_status := S_completed, ws_updatedAt := 7\<rparr>) = ''w1'' \<and>
   getWorkflowSteps ''w1''
     (snd (patch_workflow_steps_id 8 8 8 ''target'' (workflowId_only ''w2'')
        (snd (updateWorkflowStep ''target'' (status_only S_completed) 7
           (example_store W_pending 0 (steps_of_w1 0 0)))))) = [] \<and>
   progress_of [] = NaN \<and>
   wp_progress (workflowUpdate NaN 9) = Some NaN \<and>
   two_patches_interleaved 7 9 10 ''target'' (status_only S_completed)
       8 8 8 ''target'' (workflowId_only ''w2'') (example_store W_pending 0 (steps_of_w1 0 0))
     = (Threw DbError,
        Response 200 (Json (target_step\<lparr>ws_workflowId := ''w2'', ws_status := S_completed,
                                         ws_updatedAt := 8\<rparr>)),
        example_store W_pending 0
          [target_step\<lparr>ws_workflowId := ''w2'', ws_status := S_completed, ws_updatedAt := 8\<rparr>])"
  by (simp add: two_patches_interleaved_def after_step_update_def patch_workflow_steps_id_def
      updateWorkflowStep_def getWorkflowSteps_def example_store_def steps_of_w1_def target_step_def
      step_row_def status_only_def workflowId_only_def set_workflow_step_def supplied_def
      returning_def update_where_def first_row_def progress_aggregator_def progress_of_def
      of_length_def workflowUpdate_def no_fields_def updateWorkflow_def integer_column_def)

text \<open>
  C4. Claimed: every create, update and delete of an auditable entity appends one row to
  the audit log. The handlers that update and delete an employee append none: on the
  example store, the update of the employee \<open>e1\<close> succeeds and the deletion removes the
  row, and the audit log is empty after each of them. The handler that deletes a user
  does append its row.
\<close>

theorem employee_update_and_delete_append_no_audit_log:
  "fst (patch_employees_id 7 ''e1'' (no_employee_fields\<lparr>ep_jobTitle := Some ''Staff Engineer''\<rparr>)
          (example_store W_pending 0 []))
     = Response 200 (Json ((employee_row ''e1'')\<lparr>emp_jobTitle := ''Staff Engineer'', emp_updatedAt := 7\<rparr>)) \<and>
   auditLogs (snd (patch_employees_id 7 ''e1'' (no_employee_fields\<lparr>ep_jobTitle := Some ''Staff Engineer''\<rparr>)
          (example_store W_pending 0 []))) = [] \<and>
   fst (delete_employees_id ''e1'' (example_store W_pending 0 [])) = Response 204 NoBody \<and>
   employees (snd (delete_employees_id ''e1'' (example_store W_pending 0 []))) = [] \<and>
   auditLogs (snd (delete_employees_id ''e1'' (example_store W_pending 0 []))) = [] \<and>
   map (\<lambda>l. (log_action l, log_entityType l, log_entityId l, log_description l))
     (auditLogs (snd (delete_users_id example_uuid example_clock ''u1'' (example_store W_pending 0 []))))
     = [(''delete'', ''user'', Some ''u1'', Some ''Deleted user'')]"
  by (simp add: patch_employees_id_def updateEmployee_def delete_employees_id_def deleteEmployee_def
      example_store_def employee_row_def no_employee_fields_def set_employee_def supplied_def
      returning_def update_where_def first_row_def delete_users_id_def deleteUser_def
      createAuditLog_def storage_createAuditLog_def or_null_def Let_def)

text \<open>
  C5. The deletions of the persistence gateway do not cascade: \<^verbatim>\<open>deleteWorkflowTemplate\<close>
  leaves the table of the template steps as it is, and \<^verbatim>\<open>deleteWorkflow\<close>, and with it
  the handler of \<^verbatim>\<open>DELETE /api/workflows/:id\<close>, leaves the workflow steps and the tasks.
  The steps of a template go only by the separate call of the caller: the handler of
  \<^verbatim>\<open>DELETE /api/templates/:id\<close> deletes them first and the template then, and the
  template steps it leaves are those that \<^verbatim>\<open>deleteTemplateStepsByTemplateId\<close> leaves.
\<close>

theorem delete_does_not_cascade:
  "templateSteps (deleteWorkflowTemplate id' s) = templateSteps s \<and>
   workflowSteps (deleteWorkflow id' s) = workflowSteps s \<and>
   tasks (deleteWorkflow id' s) = tasks s \<and>
   workflowSteps (snd (delete_workflows_id id' s)) = workflowSteps s \<and>
   tasks (snd (delete_workflows_id id' s)) = tasks s \<and>
   templateSteps (snd (delete_templates_id id' s)) =
     templateSteps (deleteTemplateStepsByTemplateId id' s)"
  by (simp add: deleteWorkflowTemplate_def deleteWorkflow_def delete_workflows_id_def
      delete_templates_id_def Let_def)

theorem delete_does_not_cascade_witness:
  "workflowTemplates (deleteWorkflowTemplate ''t1'' (example_store W_pending 0 (steps_of_w1 0 0))) = [] \<and>
   map ts_name (templateSteps (deleteWorkflowTemplate ''t1'' (example_store W_pending 0 (steps_of_w1 0 0))))
     = [''A'', ''B''] \<and>
   workflows (snd (delete_workflows_id ''w1'' (example_store W_pending 0 (steps_of_w1 0 0)))) = [] \<and>
   map ws_id (workflowSteps (snd (delete_workflows_id ''w1'' (example_store W_pending 0 (steps_of_w1 0 0)))))
     = [''target''] \<and>
   map task_id (tasks (snd (delete_workflows_id ''w1'' (example_store W_pending 0 (steps_of_w1 0 0)))))
     = [''k1'']"
  using delete_does_not_cascade[of "''t1''" "example_store W_pending 0 (steps_of_w1 0 0)"]
    delete_does_not_cascade[of "''w1''" "example_store W_pending 0 (steps_of_w1 0 0)"]
  by (simp add: example_store_def deleteWorkflowTemplate_def delete_workflows_id_def deleteWorkflow_def
      template_row_def workflow_row_def template_step_row_def steps_of_w1_def target_step_def
      step_row_def task_row_def)

text \<open>
  C6. A workflow created from a template gets one step for each step of the template, in
  the order of the template, with the name and the order of that step and the status
  \<open>pending\<close>. The identifier that the database draws for the workflow is taken to be new:
  no step of the table refers to it yet.
\<close>

theorem workflow_steps_cloned_from_template:
  assumes "iw_templateId data \<noteq> []"
    and "uuid 0 \<notin> set (map ws_workflowId (workflowSteps s))"
  shows "\<exists>workflow. fst (post_workflows uuid clock (Inr data) s) = Response 201 (Json workflow) \<and>
           map (\<lambda>w. (ws_name w, ws_stepOrder w, ws_status w))
             (getWorkflowSteps (wf_id workflow) (snd (post_workflows uuid clock (Inr data) s)))
           = map (\<lambda>t. (ts_name t, ts_stepOrder t, S_pending))
               (getTemplateSteps (iw_templateId data) s)"
proof -
  let ?ts = "getTemplateSteps (iw_templateId data) s"
  let ?s' = "snd (post_workflows uuid clock (Inr data) s)"
  let ?w = "fst (createWorkflow (uuid 0) (clock 0) data s)"
  obtain new where r: "fst (post_workflows uuid clock (Inr data) s) = Response 201 (Json ?w)"
    and ws: "workflowSteps ?s' = workflowSteps s @ new"
    and new: "map cloned new = map (origin (uuid 0)) ?ts"
    using post_workflows_steps[OF assms(1)] by blast
  have id: "wf_id ?w = uuid 0" by (simp add: createWorkflow_def Let_def)
  have "map (\<lambda>w. fst (cloned w)) new = map (\<lambda>t. fst (origin (uuid 0) t)) ?ts"
    using new by (rule map_projection)
  then have "map ws_workflowId new = map (\<lambda>t. uuid 0) ?ts" by (simp add: cloned_def origin_def)
  then have "set (map ws_workflowId new) \<subseteq> {uuid 0}" by (simp only:) auto
  then have "\<forall>w \<in> set new. ws_workflowId w = uuid 0" by auto
  then have own: "filter (\<lambda>w. ws_workflowId w = uuid 0) new = new" by simp
  have old: "filter (\<lambda>w. ws_workflowId w = uuid 0) (workflowSteps s) = []"
    using assms(2) by (force simp: filter_empty_conv image_iff)
  have "map (\<lambda>w. fst (snd (snd (snd (cloned w))))) new
          = map (\<lambda>t. fst (snd (snd (snd (origin (uuid 0) t))))) ?ts"
    using new by (rule map_projection)
  then have "map ws_stepOrder new = map ts_stepOrder ?ts" by (simp add: cloned_def origin_def)
  then have "sorted (map ws_stepOrder new)" by (simp add: sorted_getTemplateSteps)
  then have "sort_key ws_stepOrder new = new" by (rule sort_key_id_if_sorted)
  then have g: "getWorkflowSteps (uuid 0) ?s' = new"
    by (simp add: getWorkflowSteps_def ws old own)
  have "map (\<lambda>w. (fst (snd (snd (cloned w))), fst (snd (snd (snd (cloned w)))),
                    snd (snd (snd (snd (cloned w)))))) new
      = map (\<lambda>t. (fst (snd (snd (origin (uuid 0) t))), fst (snd (snd (snd (origin (uuid 0) t)))),
                    snd (snd (snd (snd (origin (uuid 0) t)))))) ?ts"
    using new by (rule map_projection)
  then have "map (\<lambda>w. (ws_name w, ws_stepOrder w, ws_status w)) new
      = map (\<lambda>t. (ts_name t, ts_stepOrder t, S_pending)) ?ts"
    by (simp add: cloned_def origin_def)
  then show ?thesis using r id g by simp
qed

theorem workflow_steps_cloned_from_template_witness:
  "iw_templateId example_workflow \<noteq> [] \<and>
   example_uuid 0 \<notin> set (map ws_workflowId (workflowSteps (example_store W_pending 0 (steps_of_w1 0 0)))) \<and>
   map (\<lambda>t. (ts_name t, ts_stepOrder t))
     (getTemplateSteps ''t1'' (example_store W_pending 0 (steps_of_w1 0 0))) = [(''A'', 1), (''B'', 2)] \<and>
   (\<exists>workflow. fst (post_workflows example_uuid example_clock (Inr example_workflow)
                      (example_store W_pending 0 (steps_of_w1 0 0))) = Response 201 (Json workflow) \<and>
      map (\<lambda>w. (ws_name w, ws_stepOrder w, ws_status w))
        (getWorkflowSteps (wf_id workflow)
           (snd (post_workflows example_uuid example_clock (Inr example_workflow)
                   (example_store W_pending 0 (steps_of_w1 0 0)))))
      = [(''A'', 1, S_pending), (''B'', 2, S_pending)])"
proof -
  have h1: "iw_templateId example_workflow \<noteq> []" by (simp add: example_workflow_def)
  have h2: "example_uuid 0 \<notin> set (map ws_workflowId (workflowSteps (example_store W_pending 0 (steps_of_w1 0 0))))"
    by (simp add: example_store_def steps_of_w1_def target_step_def step_row_def example_uuid_def)
  have t: "iw_templateId example_workflow = ''t1''" by (simp add: example_workflow_def)
  show ?thesis
    using workflow_steps_cloned_from_template[where data = example_workflow and uuid = example_uuid
        and s = "example_store W_pending 0 (steps_of_w1 0 0)" and clock = example_clock, OF h1 h2]
      h1 h2
    by (simp add: t example_template_steps template_step_row_def)
qed

text \<open>
  C7. A row of \<^verbatim>\<open>users\<close> has the key \<open>password\<close>; the object of a user in a successful
  response of the list, of the single fetch, of the creation and of the update has not.
\<close>

theorem user_responses_omit_password:
  "(get_users s = Response c1 (Json objs) \<longrightarrow> (\<forall>obj \<in> set objs. \<not> has_key ''password'' obj)) \<and>
   (get_users_id id' s = Response c2 (Json obj2) \<longrightarrow> \<not> has_key ''password'' obj2) \<and>
   (fst (post_users hash uuid clock body s) = Response c3 (Json obj3) \<longrightarrow> \<not> has_key ''password'' obj3) \<and>
   (fst (patch_users_id hash uuid clock now id' data s) = Response c4 (Json obj4)
      \<longrightarrow> \<not> has_key ''password'' obj4)"
proof (intro conjI impI)
  assume "get_users s = Response c1 (Json objs)"
  then show "\<forall>obj \<in> set objs. \<not> has_key ''password'' obj"
    by (auto simp: get_users_def omitPassword_no_key)
next
  assume "get_users_id id' s = Response c2 (Json obj2)"
  then show "\<not> has_key ''password'' obj2"
    by (auto simp: get_users_id_def omitPassword_no_key split: option.splits)
next
  assume "fst (post_users hash uuid clock body s) = Response c3 (Json obj3)"
  then show "\<not> has_key ''password'' obj3"
    by (auto simp: post_users_def Let_def omitPassword_no_key split: sum.splits prod.splits)
next
  assume "fst (patch_users_id hash uuid clock now id' data s) = Response c4 (Json obj4)"
  then show "\<not> has_key ''password'' obj4"
    by (auto simp: patch_users_id_def Let_def omitPassword_no_key
        split: sum.splits option.splits prod.splits if_splits)
qed

theorem user_responses_omit_password_witness:
  "get_users (example_store W_pending 0 []) =
     Response 200 (Json [omitPassword (user_object (user_row ''u1'' ''jane''))]) \<and>
   \<not> has_key ''password'' (omitPassword (user_object (user_row ''u1'' ''jane''))) \<and>
   has_key ''password'' (user_object (user_row ''u1'' ''jane'')) \<and>
   get_users_id ''u1'' (example_store W_pending 0 []) =
     Response 200 (Json (omitPassword (user_object (user_row ''u1'' ''jane'')))) \<and>
   fst (post_users example_hash example_uuid example_clock
     [(''email'', JsString ''ann@company.com''), (''username'', JsString ''ann''),
      (''password'', JsString ''secret''),
      (''firstName'', JsString ''Ann''), (''lastName'', JsString ''Lee'')]
     (example_store W_pending 0 []))
   = Response 201 (Json
      [(''id'', JsString ''new0''), (''email'', JsString ''ann@company.com''),
       (''username'', JsString ''ann''), (''firstName'', JsString ''Ann''),
       (''lastName'', JsString ''Lee''), (''role'', JsString ''viewer''),
       (''departmentId'', JsNull), (''avatarUrl'', JsNull), (''isActive'', JsBool True),
       (''createdAt'', JsDate 100), (''updatedAt'', JsDate 100)]) \<and>
   fst (patch_users_id example_hash example_uuid example_clock 7 ''u1''
     (no_user_fields\<lparr>up_password := Some ''secret''\<rparr>) (example_store W_pending 0 []))
   = Response 200 (Json (omitPassword (user_object
       ((user_row ''u1'' ''jane'')\<lparr>user_password := example_hash ''secret'', user_updatedAt := 7\<rparr>)))) \<and>
   \<not> has_key ''password'' (omitPassword (user_object
       ((user_row ''u1'' ''jane'')\<lparr>user_password := example_hash ''secret'', user_updatedAt := 7\<rparr>)))"
proof -
  note t = user_responses_omit_password[of "example_store W_pending 0 []" 200
      "[omitPassword (user_object (user_row ''u1'' ''jane''))]" "''u1''" 200
      "omitPassword (user_object (user_row ''u1'' ''jane''))"
      example_hash example_uuid example_clock
      "[(''email'', JsString ''ann@company.com''), (''username'', JsString ''ann''),
        (''password'', JsString ''secret''),
        (''firstName'', JsString ''Ann''), (''lastName'', JsString ''Lee'')]" 201
      "[(''id'', JsString ''new0''), (''email'', JsString ''ann@company.com''),
       (''username'', JsString ''ann''), (''firstName'', JsString ''Ann''),
       (''lastName'', JsString ''Lee''), (''role'', JsString ''viewer''),
       (''departmentId'', JsNull), (''avatarUrl'', JsNull), (''isActive'', JsBool True),
       (''createdAt'', JsDate 100), (''updatedAt'', JsDate 100)]"
      7 "no_user_fields\<lparr>up_password := Some ''secret''\<rparr>" 200
      "omitPassword (user_object
       ((user_row ''u1'' ''jane'')\<lparr>user_password := example_hash ''secret'', user_updatedAt := 7\<rparr>))"]
  show ?thesis
    using t example_get_users example_get_users_id example_post_users example_patch_users_id
      user_object_has_password[of "user_row ''u1'' ''jane''"]
    by simp
qed

text \<open>
  C8. A body without the key \<open>password\<close> is answered with the status 400 and the issues of
  the validation, among them the one for the path \<open>password\<close> (a string was expected and
  nothing was received); the store is the one before the request.
\<close>

theorem post_users_without_password:
  assumes "map_of body ''password'' = None"
  shows "\<exists>errors. post_users hash uuid clock body s =
                     (Response 400 (Invalid ''Invalid user data'' errors), s) \<and>
                  Invalid_type [''password''] ''string'' ''undefined'' \<in> set errors"
  using safeParse_without_password[OF assms]
  by (auto simp: post_users_def reports_def split: sum.splits)

theorem post_users_without_password_witness:
  "map_of [(''email'', JsString ''ann@company.com''), (''username'', JsString ''ann''),
           (''firstName'', JsString ''Ann''), (''lastName'', JsString ''Lee'')] ''password'' = None \<and>
   post_users example_hash example_uuid example_clock
     [(''email'', JsString ''ann@company.com''), (''username'', JsString ''ann''),
      (''firstName'', JsString ''Ann''), (''lastName'', JsString ''Lee'')]
     (example_store W_pending 0 [])
   = (Response 400 (Invalid ''Invalid user data'' [Invalid_type [''password''] ''string'' ''undefined'']),
      example_store W_pending 0 [])"
proof -
  let ?body = "[(''email'', JsString ''ann@company.com''), (''username'', JsString ''ann''),
           (''firstName'', JsString ''Ann''), (''lastName'', JsString ''Lee'')]"
  have h: "map_of ?body ''password'' = None" by simp
  obtain errors where e: "post_users example_hash example_uuid example_clock ?body (example_store W_pending 0 [])
      = (Response 400 (Invalid ''Invalid user data'' errors), example_store W_pending 0 [])"
    using post_users_without_password[OF h] by blast
  have "insertUserSchema_safeParse ?body = Inl [Invalid_type [''password''] ''string'' ''undefined'']"
    by (simp add: insertUserSchema_safeParse_def z_string_def z_role_optional_def
        z_string_nullable_optional_def z_boolean_optional_def)
  then have "errors = [Invalid_type [''password''] ''string'' ''undefined'']"
    using e by (simp add: post_users_def)
  then show ?thesis using h e by simp
qed

text \<open>
  C9. A body whose status is not \<open>completed\<close> (\<open>blocked\<close>, for one, or no status at all)
  leaves the table of the workflows as it was: no workflow is written.
\<close>

theorem other_status_leaves_workflows:
  assumes "sp_status body \<noteq> Some S_completed"
  shows "workflows (snd (patch_workflow_steps_id t_step t_done t_upd id' body s)) = workflows s"
  using assms
  by (simp add: patch_workflow_steps_id_def updateWorkflowStep_def split: option.splits)

theorem other_status_leaves_workflows_witness:
  "sp_status (status_only S_blocked) \<noteq> Some S_completed \<and>
   map ws_status (workflowSteps (snd (patch_workflow_steps_id 7 8 9 ''target'' (status_only S_blocked)
      (example_store W_in_progress 50 (steps_of_w1 1 1))))) = [S_blocked, S_completed] \<and>
   workflows (snd (patch_workflow_steps_id 7 8 9 ''target'' (status_only S_blocked)
      (example_store W_in_progress 50 (steps_of_w1 1 1))))
     = [workflow_row ''w1'' ''t1'' W_in_progress 50]"
proof -
  have h: "sp_status (status_only S_blocked) \<noteq> Some S_completed" by (simp add: status_only_def)
  have "map ws_status (workflowSteps (snd (patch_workflow_steps_id 7 8 9 ''target'' (status_only S_blocked)
      (example_store W_in_progress 50 (steps_of_w1 1 1))))) = [S_blocked, S_completed]"
    by (simp add: patch_workflow_steps_id_def updateWorkflowStep_def example_store_def steps_of_w1_def
        target_step_def step_row_def status_only_def set_workflow_step_def supplied_def returning_def
        update_where_def first_row_def)
  then show ?thesis
    using h other_status_leaves_workflows[OF h, of 7 8 9 "''target''"
        "example_store W_in_progress 50 (steps_of_w1 1 1)"]
    by (simp add: example_store_def)
qed

text \<open>
  C10. Claimed: the status that the aggregator writes is \<open>completed\<close> or \<open>in_progress\<close>,
  and so completing a step of a blocked or cancelled workflow overwrites that status. The
  second part fails when the progress rounds to 0: the workflow \<open>w1\<close> is blocked and has
  201 pending steps; completing one of them writes the progress 0 and leaves the status
  \<open>blocked\<close>.
\<close>

theorem blocked_workflow_of_201_steps_stays_blocked:
  "length (getWorkflowSteps ''w1'' (example_store W_blocked 0 (steps_of_w1 200 0))) = 201 \<and>
   fst (patch_workflow_steps_id 7 8 9 ''target'' (status_only S_completed)
      (example_store W_blocked 0 (steps_of_w1 200 0)))
     = Response 200 (Json (target_step\<lparr>ws_status := S_completed, ws_updatedAt := 7\<rparr>)) \<and>
   map wf_progress (workflows (snd (patch_workflow_steps_id 7 8 9 ''target'' (status_only S_completed)
      (example_store W_blocked 0 (steps_of_w1 200 0))))) = [0] \<and>
   map wf_status (workflows (snd (patch_workflow_steps_id 7 8 9 ''target'' (status_only S_completed)
      (example_store W_blocked 0 (steps_of_w1 200 0))))) = [W_blocked]"
proof (intro conjI)
  have w: "workflows (snd (patch_workflow_steps_id 7 8 9 ''target'' (status_only S_completed)
      (example_store W_blocked 0 (steps_of_w1 200 0)))) = [written 0 8 9 (workflow_row ''w1'' ''t1'' W_blocked 0)]"
    using example_patch[of 0 200 0 7 8 9 W_blocked 0] percent_1_201 by simp
  show "map wf_progress (workflows (snd (patch_workflow_steps_id 7 8 9 ''target'' (status_only S_completed)
      (example_store W_blocked 0 (steps_of_w1 200 0))))) = [0]"
    unfolding w by (simp add: written_def)
  show "map wf_status (workflows (snd (patch_workflow_steps_id 7 8 9 ''target'' (status_only S_completed)
      (example_store W_blocked 0 (steps_of_w1 200 0))))) = [W_blocked]"
    unfolding w by (simp add: written_def workflow_row_def)
  show "fst (patch_workflow_steps_id 7 8 9 ''target'' (status_only S_completed)
      (example_store W_blocked 0 (steps_of_w1 200 0)))
     = Response 200 (Json (target_step\<lparr>ws_status := S_completed, ws_updatedAt := 7\<rparr>))"
    using patch_completed[OF example_hyp1 example_hyp2 example_hyp3, of 7 W_blocked 0 200 0 8 9] by auto
qed (simp add: example_counts_before)

text \<open>
  C10, amended. The status that the aggregator writes is \<open>completed\<close> or \<open>in_progress\<close>,
  never \<open>pending\<close>, \<open>blocked\<close> or \<open>cancelled\<close>, whatever the status was; it writes one, and
  so overwrites the status of a blocked or cancelled workflow, exactly when the progress
  is greater than 0, and otherwise the status stays.
\<close>

theorem aggregator_overwrites_status_when_progress_positive:
  assumes "sp_status body = Some S_completed"
    and "fst (updateWorkflowStep id' body t_step s) = Some step"
    and "ws_workflowId step \<noteq> []"
  shows "\<exists>p. progress_of (getWorkflowSteps (ws_workflowId step)
                 (snd (updateWorkflowStep id' body t_step s))) = Num (of_int p) \<and>
           wp_status (workflowUpdate (Num (of_int p)) t_done)
             \<in> {None, Some W_in_progress, Some W_completed} \<and>
           (wp_status (workflowUpdate (Num (of_int p)) t_done) = None) = (p \<le> 0) \<and>
           map wf_status (workflows (snd (patch_workflow_steps_id t_step t_done t_upd id' body s))) =
             map (\<lambda>w. if wf_id w = ws_workflowId step \<and> 0 < p
                        then (if p = 100 then W_completed else W_in_progress)
                        else wf_status w) (workflows s)"
proof -
  obtain p where p: "progress_of (getWorkflowSteps (ws_workflowId step)
        (snd (updateWorkflowStep id' body t_step s))) = Num (of_int p)" "0 \<le> p"
    and r: "patch_workflow_steps_id t_step t_done t_upd id' body s =
              (Response 200 (Json step),
               (snd (updateWorkflowStep id' body t_step s))
                 \<lparr>workflows := update_where (\<lambda>w. wf_id w = ws_workflowId step) (written p t_done t_upd)
                    (workflows (snd (updateWorkflowStep id' body t_step s)))\<rparr>)"
    using patch_completed[OF assms, of t_done t_upd] by blast
  have a: "wp_status (workflowUpdate (Num (of_int p)) t_done)
             \<in> {None, Some W_in_progress, Some W_completed}"
    by (simp add: workflowUpdate_def no_fields_def)
  have b: "(wp_status (workflowUpdate (Num (of_int p)) t_done) = None) = (p \<le> 0)"
    by (simp add: workflowUpdate_def no_fields_def not_less)
  have c: "map wf_status (workflows (snd (patch_workflow_steps_id t_step t_done t_upd id' body s))) =
             map (\<lambda>w. if wf_id w = ws_workflowId step \<and> 0 < p
                        then (if p = 100 then W_completed else W_in_progress)
                        else wf_status w) (workflows s)"
    using p(2) by (simp add: r workflows_updateWorkflowStep update_where_def written_def)
  show ?thesis by (intro exI[of _ p] conjI p(1) a b c)
qed

theorem aggregator_overwrites_status_when_progress_positive_witness:
  "sp_status (status_only S_completed) = Some S_completed \<and>
   fst (updateWorkflowStep ''target'' (status_only S_completed) 7
          (example_store W_blocked 25 (steps_of_w1 3 1)))
     = Some (target_step\<lparr>ws_status := S_completed, ws_updatedAt := 7\<rparr>) \<and>
   ws_workflowId (target_step\<lparr>ws_status := S_completed, ws_updatedAt := 7\<rparr>) \<noteq> [] \<and>
   map wf_status (workflows (example_store W_blocked 25 (steps_of_w1 3 1))) = [W_blocked] \<and>
   map wf_status (workflows (snd (patch_workflow_steps_id 7 8 9 ''target'' (status_only S_completed)
      (example_store W_blocked 25 (steps_of_w1 3 1))))) = [W_in_progress]"
proof -
  let ?s = "example_store W_blocked 25 (steps_of_w1 3 1)"
  let ?step = "target_step\<lparr>ws_status := S_completed, ws_updatedAt := 7\<rparr>"
  note h = example_hyp1 example_hyp2[of 7 W_blocked 25 3 1] example_hyp3[of 7]
  obtain p where p: "progress_of (getWorkflowSteps (ws_workflowId ?step)
        (snd (updateWorkflowStep ''target'' (status_only S_completed) 7 ?s))) = Num (of_int p)"
    and w: "map wf_status (workflows (snd (patch_workflow_steps_id 7 8 9 ''target'' (status_only S_completed) ?s))) =
             map (\<lambda>w. if wf_id w = ws_workflowId ?step \<and> 0 < p
                        then (if p = 100 then W_completed else W_in_progress)
                        else wf_status w) (workflows ?s)"
    using aggregator_overwrites_status_when_progress_positive[OF h, of 8 9] by blast
  have "p = 50" using p percent_2_4 by (simp add: example_hyp4 example_progress numeral_2_eq_2)
  then have "map wf_status (workflows (snd (patch_workflow_steps_id 7 8 9 ''target'' (status_only S_completed) ?s)))
     = [W_in_progress]"
    unfolding w by (simp add: example_hyp4 example_store_def workflow_row_def)
  moreover have "map wf_status (workflows ?s) = [W_blocked]"
    by (simp add: example_store_def workflow_row_def)
  ultimately show ?thesis using h by blast
qed

end
